theory Spec2Isabelle
  imports Complex_Main "HOL-Library.AList"
begin

section \<open>Python strings\<close>

text \<open>
  Strings are lists of characters, a character being a code point below 256. The
  operations below are the methods of \<open>str\<close> that
  \<open>agent.py\<close> and \<open>config.py\<close> call: \<open>strip\<close>, \<open>startswith\<close>, \<open>endswith\<close>,
  \<open>split("\n")\<close>, \<open>"\n".join\<close>, the slice \<open>s[-4:]\<close> and \<open>str\<close> of a non-negative integer.
\<close>

definition isspace :: "char \<Rightarrow> bool" where
  \<comment> \<open>The characters below 256 that \<open>str.isspace\<close> accepts: tab to carriage return, the
      separators 28 to 31, the blank, NEL and the no-break space.\<close>
  "isspace c =
     (let n = (of_char c :: nat)
      in (9 \<le> n \<and> n \<le> 13) \<or> (28 \<le> n \<and> n \<le> 32) \<or> n = 133 \<or> n = 160)"

definition strip :: "string \<Rightarrow> string" where
  "strip s = rev (dropWhile isspace (rev (dropWhile isspace s)))"

definition startswith :: "string \<Rightarrow> string \<Rightarrow> bool" where
  "startswith s p = (take (length p) s = p)"

definition endswith :: "string \<Rightarrow> string \<Rightarrow> bool" where
  "endswith s p = (length p \<le> length s \<and> drop (length s - length p) s = p)"

definition newline :: char where
  "newline = CHR 0x0A"

fun split_newline :: "string \<Rightarrow> string list" where
  \<comment> \<open>\<open>s.split("\n")\<close>: never empty, one more piece than there are newlines.\<close>
  "split_newline [] = [[]]"
| "split_newline (c # cs) =
     (if c = newline then [] # split_newline cs
      else (case split_newline cs of
              [] \<Rightarrow> [[c]]
            | l # ls \<Rightarrow> (c # l) # ls))"

fun join_newline :: "string list \<Rightarrow> string" where
  \<comment> \<open>\<open>"\n".join(lines)\<close>\<close>
  "join_newline [] = []"
| "join_newline [l] = l"
| "join_newline (l # ls) = l @ newline # join_newline ls"

definition last4 :: "string \<Rightarrow> string" where
  \<comment> \<open>the slice \<open>s[-4:]\<close>: the last four characters, all of \<open>s\<close> when it is shorter\<close>
  "last4 s = drop (length s - 4) s"

definition digit_char :: "nat \<Rightarrow> char" where
  "digit_char d = char_of (48 + d)"

fun str_nat :: "nat \<Rightarrow> string" where
  \<comment> \<open>\<open>str(n)\<close> of a non-negative integer: its decimal digits\<close>
  "str_nat n = (if n < 10 then [digit_char n] else str_nat (n div 10) @ [digit_char (n mod 10)])"

declare str_nat.simps [simp del]


section \<open>Exceptions\<close>

text \<open>
  An exception is its class and the text \<open>str(e)\<close>. The classes are the ones the handlers
  of the program tell apart: \<open>except json.JSONDecodeError\<close>, \<open>except (json.JSONDecodeError,
  IOError)\<close>, \<open>except Exception\<close> and \<open>except KeyboardInterrupt\<close>. \<open>OSError\<close> stands for
  \<open>IOError\<close> and its subclasses, \<open>MarkupError\<close> is the error of the console library's
  markup parser. \<open>KeyboardInterrupt\<close> and \<open>SystemExit\<close> derive from \<open>BaseException\<close> only,
  so \<open>except Exception\<close> lets them pass.
\<close>

datatype exn_class =
    JSONDecodeError | OSError | UnicodeDecodeError | KeyError | TypeError
  | AttributeError | ValueError | RecursionError | ImportError | MarkupError
  | OtherException | KeyboardInterrupt | SystemExit

datatype exn = Exn exn_class string

definition is_Exception :: "exn_class \<Rightarrow> bool" where
  "is_Exception cls = (cls \<noteq> KeyboardInterrupt \<and> cls \<noteq> SystemExit)"


section \<open>The Command Runner: \<open>kubectl_exec\<close>\<close>

text \<open>
  \<open>subprocess.run(cmd_args, check=True, capture_output=True, text=True)\<close> starts the child,
  waits for it, and only then decodes what it wrote. So a call ends in one of three ways:
  it raises before any child has exited (the program is not found, the wait is
  interrupted); the child exits with a status and decoding its output raises; or the child
  exits with a status and its output is text. In the last case \<open>check=True\<close> raises
  CalledProcessError when the status is not zero, and the handler of line 160 is for that
  class only.
\<close>

record completed_process =
  returncode :: int
  stdout :: string
  stderr :: string

datatype process =
    Raised exn
  | Undecoded int exn
  | Completed completed_process


definition kubectl_exec_command :: "string \<Rightarrow> string" where
  \<comment> \<open>the value of \<open>command\<close> that reaches \<open>shlex.split\<close> (agent.py, lines 148 to 152)\<close>
  "kubectl_exec_command command =
     (let command = strip command
      in if \<not> startswith command ''kubectl '' then ''kubectl '' @ command else command)"

definition kubectl_exec ::
  "(string \<Rightarrow> exn + string list) \<Rightarrow> (string list \<Rightarrow> process) \<Rightarrow> string \<Rightarrow> exn + string" where
  \<comment> \<open>The function of line 137, undecorated. \<open>shlex_split\<close> is \<open>shlex.split\<close> (it raises
      ValueError on an unclosed quotation) and \<open>subprocess_run\<close> is the call of line 158.\<close>
  "kubectl_exec shlex_split subprocess_run command =
     (case shlex_split (kubectl_exec_command command) of
        Inl e \<Rightarrow> Inl e
      | Inr cmd_args \<Rightarrow>
          (case subprocess_run cmd_args of
             Raised e \<Rightarrow> Inl e
           | Undecoded status e \<Rightarrow> Inl e
           | Completed result \<Rightarrow>
               if returncode result \<noteq> 0 then Inr (''Error: '' @ stderr result)
               else Inr (stdout result)))"

section \<open>The console\<close>

text \<open>
  What a function writes is the list of calls it makes on the console object, in order. A
  table is its title and rows; a \<open>Syntax\<close> object is its code, its lexer and whether it
  numbers the lines.

  The console object belongs to a library, so it is a parameter: \<open>console c\<close> is the
  exception that the call \<open>c\<close> raises, and \<open>None\<close> when the call returns. The library reads
  the text of a \<open>print\<close>, the title of a \<open>rule\<close> and the cells of a table as markup, and
  raises MarkupError on a closing tag that closes nothing.

  A function that writes yields the calls it made, the last one being the call that
  raised if one did, and what it returns or raises.
\<close>

datatype console_call =
    Print_blank
  | Print string
  | Print_table string "(string \<times> string) list"
  | Print_syntax string string bool
  | Rule string
  | Rule_blank

fun console_calls ::
  "(console_call \<Rightarrow> exn option) \<Rightarrow> console_call list \<Rightarrow> console_call list \<times> (exn + unit)" where
  \<comment> \<open>the calls one after the other, up to the first that raises\<close>
  "console_calls console [] = ([], Inr ())"
| "console_calls console (c # cs) =
     (case console c of
        Some e \<Rightarrow> ([c], Inl e)
      | None \<Rightarrow> (case console_calls console cs of (shown, r) \<Rightarrow> (c # shown, r)))"

definition renders :: "(console_call \<Rightarrow> exn option) \<Rightarrow> console_call list \<Rightarrow> bool" where
  \<comment> \<open>none of the calls raises\<close>
  "renders console calls = list_all (\<lambda>c. console c = None) calls"

definition then_do ::
  "console_call list \<times> (exn + 'a) \<Rightarrow> ('a \<Rightarrow> console_call list \<times> (exn + 'b)) \<Rightarrow>
   console_call list \<times> (exn + 'b)" where
  \<comment> \<open>one statement after another: the second runs when the first did not raise\<close>
  "then_do m f =
     (case m of
        (shown, Inl e) \<Rightarrow> (shown, Inl e)
      | (shown, Inr x) \<Rightarrow> (case f x of (shown', r) \<Rightarrow> (shown @ shown', r)))"

definition try_except ::
  "console_call list \<times> (exn + 'a) \<Rightarrow> (exn_class \<Rightarrow> bool) \<Rightarrow>
   (string \<Rightarrow> console_call list \<times> (exn + 'a)) \<Rightarrow> console_call list \<times> (exn + 'a)" where
  \<comment> \<open>\<open>try: m except C as e: handler(str(e))\<close>, \<open>caught\<close> telling the classes that derive
      from \<open>C\<close>; what the handler raises is not caught\<close>
  "try_except m caught handler =
     (case m of
        (shown, Inl (Exn cls msg)) \<Rightarrow>
          if caught cls then (case handler msg of (shown', r) \<Rightarrow> (shown @ shown', r))
          else (shown, Inl (Exn cls msg))
      | (shown, Inr x) \<Rightarrow> (shown, Inr x))"

section \<open>The Observation Formatter: \<open>display_kubectl\<close>\<close>

text \<open>
  A value that \<open>json.loads\<close> returns: \<open>None\<close>, a bool, an int, a float (by its value, a
  rational), a string, a list, or a dict as the list of its items.
\<close>

datatype json =
    JNull | JBool bool | JInt int | JFloat rat | JString string
  | JArray "json list" | JObject "(string \<times> json) list"

definition print_regular_output :: "string \<Rightarrow> console_call list" where
  \<comment> \<open>the console calls of \<open>_print_regular_output(output)\<close>, lines 122 to 133\<close>
  "print_regular_output output =
     (let output_lines = split_newline output
      in if length output_lines > 20 then
           [Print ''[bold green]Output (truncated):'',
            Print (join_newline (take 20 output_lines)),
            Print (''[italic]...and '' @ str_nat (length output_lines - 20) @ '' more lines'')]
         else
           [Print ''[bold green]Output:'', Print output])"

fun arg_rows :: "nat \<Rightarrow> string list \<Rightarrow> (string \<times> string) list" where
  \<comment> \<open>\<open>for i, arg in enumerate(args): table.add_row(f"arg{i}", str(arg))\<close>\<close>
  "arg_rows i [] = []"
| "arg_rows i (arg # args) = (''arg'' @ str_nat i, arg) # arg_rows (Suc i) args"

definition display_header ::
  "string \<Rightarrow> string list \<Rightarrow> (string \<times> string) list \<Rightarrow> console_call list" where
  \<comment> \<open>the console calls of lines 59 to 86: the banner, the parameter table, and the command
      for \<open>kubectl_exec\<close>\<close>
  "display_header func_name args kwargs =
     [Print_blank,
      Rule (''[bold blue]EXECUTING: '' @ func_name),
      Print_table ''Parameters'' (arg_rows 0 args @ kwargs)]
     @ (if func_name = ''kubectl_exec'' \<and> args \<noteq> []
        then [Print ''[bold cyan]Command:'', Print_syntax (hd args) ''bash'' False]
        else [])"

definition display_error :: "string \<Rightarrow> console_call list" where
  \<comment> \<open>the console calls of the handler, lines 112 to 114\<close>
  "display_error error_msg = [Print ''[bold red]Error:'', Print error_msg, Rule_blank]"

definition tool_func_name :: "string option \<Rightarrow> string \<Rightarrow> string" where
  \<comment> \<open>\<open>tool_name or func.__name__\<close>: an empty \<open>tool_name\<close> is falsy, like \<open>None\<close>\<close>
  "tool_func_name tool_name name =
     (case tool_name of None \<Rightarrow> name | Some t \<Rightarrow> if t \<noteq> [] then t else name)"

definition json_shaped :: "string \<Rightarrow> bool" where
  \<comment> \<open>the test of line 93\<close>
  "json_shaped output = (startswith output ''{'' \<and> endswith output ''}'')"

definition render_json ::
  "(console_call \<Rightarrow> exn option) \<Rightarrow> (string \<Rightarrow> exn + json) \<Rightarrow> (json \<Rightarrow> nat \<Rightarrow> exn + string) \<Rightarrow>
   string \<Rightarrow> console_call list \<times> (exn + unit)" where
  \<comment> \<open>the body of the inner \<open>try\<close>, lines 96 to 102; \<open>json_dumps v n\<close> is
      \<open>json.dumps(v, indent=n)\<close>\<close>
  "render_json console json_loads json_dumps output =
     then_do ([], json_loads output) (\<lambda>parsed_output.
     then_do ([], json_dumps parsed_output 2) (\<lambda>output_str.
     console_calls console
       [Print ''[bold green]Output:'', Print_syntax output_str ''json'' True]))"

definition display_output ::
  "(console_call \<Rightarrow> exn option) \<Rightarrow> (string \<Rightarrow> exn + json) \<Rightarrow> (json \<Rightarrow> nat \<Rightarrow> exn + string) \<Rightarrow>
   string \<Rightarrow> console_call list \<times> (exn + unit)" where
  \<comment> \<open>lines 93 to 106: the JSON rendering for a text of the shape, with the plain rendering
      in its place on JSONDecodeError, and the plain rendering for every other text\<close>
  "display_output console json_loads json_dumps output =
     (if json_shaped output then
        try_except (render_json console json_loads json_dumps output)
          (\<lambda>cls. cls = JSONDecodeError)
          (\<lambda>error_msg. console_calls console (print_regular_output output))
      else console_calls console (print_regular_output output))"

definition display_kubectl ::
  "(console_call \<Rightarrow> exn option) \<Rightarrow> string option \<Rightarrow> string \<Rightarrow> (string \<Rightarrow> exn + json) \<Rightarrow>
   (json \<Rightarrow> nat \<Rightarrow> exn + string) \<Rightarrow> bool \<Rightarrow>
   (string list \<Rightarrow> (string \<times> string) list \<Rightarrow> exn + string) \<Rightarrow>
   string list \<Rightarrow> (string \<times> string) list \<Rightarrow> console_call list \<times> (exn + string)" where
  \<comment> \<open>The wrapper that \<open>display_kubectl(tool_name)(func)\<close> returns, applied to \<open>args\<close> and
      \<open>kwargs\<close>. \<open>name\<close> is \<open>func.__name__\<close>, \<open>json_loads\<close> is \<open>json.loads\<close> and
      \<open>SHOW_TOOL_CALLS\<close> the value of the global flag at the call. The header is written
      before the \<open>try\<close>: what it raises leaves the wrapper, and the function is not called.
      What the function, the rendering of its result or the closing rule raises is caught
      when it derives from \<open>Exception\<close>; what the handler raises leaves the wrapper.\<close>
  "display_kubectl console tool_name name json_loads json_dumps SHOW_TOOL_CALLS func args kwargs =
     (if \<not> SHOW_TOOL_CALLS then ([], func args kwargs)
      else
        let func_name = tool_func_name tool_name name
        in then_do (console_calls console (display_header func_name args kwargs)) (\<lambda>u.
             try_except
               (then_do ([], func args kwargs) (\<lambda>output.
                then_do (display_output console json_loads json_dumps output) (\<lambda>u.
                then_do (console_calls console [Rule_blank]) (\<lambda>u.
                ([], Inr output)))))
               is_Exception
               (\<lambda>error_msg.
                  then_do (console_calls console (display_error error_msg)) (\<lambda>u.
                  ([], Inr (''Error: '' @ error_msg))))))"

definition kubectl_exec_tool ::
  "(console_call \<Rightarrow> exn option) \<Rightarrow> (string \<Rightarrow> exn + string list) \<Rightarrow> (string list \<Rightarrow> process) \<Rightarrow>
   (string \<Rightarrow> exn + json) \<Rightarrow> (json \<Rightarrow> nat \<Rightarrow> exn + string) \<Rightarrow> bool \<Rightarrow> string \<Rightarrow>
   console_call list \<times> (exn + string)" where
  \<comment> \<open>The decorated \<open>kubectl_exec\<close> of line 136, called as the agent's Tool calls it: with the
      command as its one positional argument.\<close>
  "kubectl_exec_tool console shlex_split subprocess_run json_loads json_dumps SHOW_TOOL_CALLS
     command =
     display_kubectl console (Some ''kubectl_exec'') ''kubectl_exec'' json_loads json_dumps
       SHOW_TOOL_CALLS (\<lambda>args kwargs. kubectl_exec shlex_split subprocess_run command)
       [command] []"

section \<open>The Settings Store: \<open>config.py\<close>\<close>

subsection \<open>Python values and the operations applied to them\<close>

text \<open>
  A value that \<open>json.load\<close> returns is \<open>None\<close>, a bool, an int, a float, a string, a list
  or a dict with string keys. A dict is its list of items in insertion order:
  \<open>map_of\<close> reads a key and \<open>AList.update\<close> stores one, in place when the key is there and
  at the end when it is new, as a Python dict does.
\<close>

definition squote :: "string \<Rightarrow> string" where
  \<comment> \<open>\<open>s\<close> between single quotes, as error messages show names\<close>
  "squote s = CHR 0x27 # s @ [CHR 0x27]"

definition dquote :: "string \<Rightarrow> string" where
  "dquote s = CHR 0x22 # s @ [CHR 0x22]"

fun py_type_name :: "json \<Rightarrow> string" where
  "py_type_name JNull = ''NoneType''"
| "py_type_name (JBool b) = ''bool''"
| "py_type_name (JInt i) = ''int''"
| "py_type_name (JFloat r) = ''float''"
| "py_type_name (JString s) = ''str''"
| "py_type_name (JArray xs) = ''list''"
| "py_type_name (JObject d) = ''dict''"

fun truthy :: "json \<Rightarrow> bool" where
  "truthy JNull = False"
| "truthy (JBool b) = b"
| "truthy (JInt i) = (i \<noteq> 0)"
| "truthy (JFloat r) = (r \<noteq> 0)"
| "truthy (JString s) = (s \<noteq> [])"
| "truthy (JArray xs) = (xs \<noteq> [])"
| "truthy (JObject d) = (d \<noteq> [])"

definition no_attribute :: "json \<Rightarrow> string \<Rightarrow> exn" where
  "no_attribute v attr =
     Exn AttributeError (squote (py_type_name v) @ '' object has no attribute '' @ squote attr)"

fun py_copy :: "json \<Rightarrow> exn + json" where
  \<comment> \<open>\<open>v.copy()\<close>, a shallow copy: lists and dicts have the method\<close>
  "py_copy (JObject d) = Inr (JObject d)"
| "py_copy (JArray xs) = Inr (JArray xs)"
| "py_copy v = Inl (no_attribute v ''copy'')"

fun py_get :: "json \<Rightarrow> string \<Rightarrow> json \<Rightarrow> exn + json" where
  \<comment> \<open>\<open>v.get(key, default)\<close>\<close>
  "py_get (JObject d) key dflt =
     Inr (case map_of d key of None \<Rightarrow> dflt | Some x \<Rightarrow> x)"
| "py_get v key dflt = Inl (no_attribute v ''get'')"

fun py_getitem :: "json \<Rightarrow> string \<Rightarrow> exn + json" where
  \<comment> \<open>\<open>v[key]\<close> with a string key\<close>
  "py_getitem (JObject d) key =
     (case map_of d key of
        None \<Rightarrow> Inl (Exn KeyError (squote key))
      | Some x \<Rightarrow> Inr x)"
| "py_getitem (JArray xs) key =
     Inl (Exn TypeError ''list indices must be integers or slices, not str'')"
| "py_getitem (JString s) key =
     Inl (Exn TypeError (''string indices must be integers, not '' @ squote ''str''))"
| "py_getitem v key =
     Inl (Exn TypeError (squote (py_type_name v) @ '' object is not subscriptable''))"

fun py_setitem :: "json \<Rightarrow> string \<Rightarrow> json \<Rightarrow> exn + json" where
  \<comment> \<open>\<open>v[key] = x\<close> with a string key: the object after the assignment\<close>
  "py_setitem (JObject d) key x = Inr (JObject (AList.update key x d))"
| "py_setitem (JArray xs) key x =
     Inl (Exn TypeError ''list indices must be integers or slices, not str'')"
| "py_setitem v key x =
     Inl (Exn TypeError (squote (py_type_name v) @ '' object does not support item assignment''))"

fun py_len :: "json \<Rightarrow> exn + nat" where
  "py_len (JString s) = Inr (length s)"
| "py_len (JArray xs) = Inr (length xs)"
| "py_len (JObject d) = Inr (length (remdups (map fst d)))"
| "py_len v =
     Inl (Exn TypeError (''object of type '' @ squote (py_type_name v) @ '' has no len()''))"

subsection \<open>The files and the module's globals\<close>

text \<open>
  The state that \<open>config.py\<close> reads and writes: the configuration directory with its
  file, and the module global \<open>DEFAULT_CONFIG\<close>.

  The directory is absent (\<open>NoDir\<close>, with the text of the OSError that \<open>mkdir\<close> would raise,
  if it would) or present (\<open>Dir\<close>, with the state of \<open>config.json\<close> and the text of the
  OSError that opening the file for writing would raise, if it would). The file is
  missing, or cannot be opened or read (IOError), or holds bytes that the text codec
  rejects (\<open>f.read()\<close> raises UnicodeDecodeError), or holds text.

  \<open>DEFAULT_CONFIG\<close> is a dict whose entries \<open>"openai"\<close> and \<open>"azure"\<close> are dicts. No code
  assigns to the outer dict, and \<open>DEFAULT_CONFIG.copy()\<close> is shallow: the copy holds the two
  inner dicts themselves. The state keeps their contents; \<open>shares_default\<close> of a loaded
  configuration says that its inner dicts are those of \<open>DEFAULT_CONFIG\<close>, so that an
  assignment into one of them is an assignment into the global.
\<close>

datatype text_file = Missing | Unreadable string | Undecodable string | Text string

datatype config_dir = NoDir "string option" | Dir text_file "string option"

record config_state =
  CONFIG_DIR :: config_dir
  DEFAULT_openai :: "(string \<times> json) list"
  DEFAULT_azure :: "(string \<times> json) list"

record config_ref =
  val :: json
  shares_default :: bool

definition DEFAULT_CONFIG :: "config_state \<Rightarrow> json" where
  "DEFAULT_CONFIG s =
     JObject [(''provider'', JString ''openai''),
              (''openai'', JObject (DEFAULT_openai s)),
              (''azure'', JObject (DEFAULT_azure s))]"

definition at_import :: "config_dir \<Rightarrow> config_state" where
  \<comment> \<open>the state when the module has just been imported (lines 18 to 27)\<close>
  "at_import dir =
     \<lparr>CONFIG_DIR = dir,
      DEFAULT_openai = [(''api_key'', JString []), (''model'', JString ''gpt-4o'')],
      DEFAULT_azure = [(''api_key'', JString []), (''endpoint'', JString []),
                       (''deployment'', JString []), (''api_version'', JString ''2023-05-15'')]\<rparr>"

definition DEFAULT_CONFIG_copy :: "config_state \<Rightarrow> config_ref" where
  \<comment> \<open>\<open>DEFAULT_CONFIG.copy()\<close>\<close>
  "DEFAULT_CONFIG_copy s = \<lparr>val = DEFAULT_CONFIG s, shares_default = True\<rparr>"

fun ensure_config_dir :: "config_dir \<Rightarrow> exn + (text_file \<times> string option)" where
  \<comment> \<open>the directory's file and write error once the directory is there\<close>
  "ensure_config_dir (Dir f w) = Inr (f, w)"
| "ensure_config_dir (NoDir None) = Inr (Missing, None)"
| "ensure_config_dir (NoDir (Some msg)) = Inl (Exn OSError msg)"

definition load_config ::
  "(string \<Rightarrow> exn + json) \<Rightarrow> config_state \<Rightarrow> config_state \<times> (exn + config_ref)" where
  "load_config json_loads s =
     (case ensure_config_dir (CONFIG_DIR s) of
        Inl e \<Rightarrow> (s, Inl e)
      | Inr (f, w) \<Rightarrow>
          let s = s\<lparr>CONFIG_DIR := Dir f w\<rparr>
          in (case f of
                Missing \<Rightarrow> (s, Inr (DEFAULT_CONFIG_copy s))
              | Unreadable msg \<Rightarrow> (s, Inr (DEFAULT_CONFIG_copy s))
              | Undecodable msg \<Rightarrow> (s, Inl (Exn UnicodeDecodeError msg))
              | Text t \<Rightarrow>
                  (case json_loads t of
                     Inr config \<Rightarrow> (s, Inr \<lparr>val = config, shares_default = False\<rparr>)
                   | Inl (Exn cls msg) \<Rightarrow>
                       if cls = JSONDecodeError \<or> cls = OSError
                       then (s, Inr (DEFAULT_CONFIG_copy s))
                       else (s, Inl (Exn cls msg)))))"

definition save_config ::
  "(json \<Rightarrow> string) \<Rightarrow> config_state \<Rightarrow> json \<Rightarrow> config_state \<times> (exn + unit)" where
  "save_config json_dumps s config =
     (case ensure_config_dir (CONFIG_DIR s) of
        Inl e \<Rightarrow> (s, Inl e)
      | Inr (f, w) \<Rightarrow>
          (case w of
             Some msg \<Rightarrow> (s\<lparr>CONFIG_DIR := Dir f w\<rparr>, Inl (Exn OSError msg))
           | None \<Rightarrow> (s\<lparr>CONFIG_DIR := Dir (Text (json_dumps config)) None\<rparr>, Inr ())))"

definition get_provider ::
  "(string \<Rightarrow> exn + json) \<Rightarrow> config_state \<Rightarrow> config_state \<times> (exn + json)" where
  "get_provider json_loads s =
     (case load_config json_loads s of
        (s, Inl e) \<Rightarrow> (s, Inl e)
      | (s, Inr config) \<Rightarrow> (s, py_get (val config) ''provider'' (JString ''openai'')))"

definition get_openai_settings ::
  "(string \<Rightarrow> exn + json) \<Rightarrow> config_state \<Rightarrow> config_state \<times> (exn + json)" where
  "get_openai_settings json_loads s =
     (case load_config json_loads s of
        (s, Inl e) \<Rightarrow> (s, Inl e)
      | (s, Inr config) \<Rightarrow> (s, py_get (val config) ''openai'' (JObject (DEFAULT_openai s))))"

definition get_azure_settings ::
  "(string \<Rightarrow> exn + json) \<Rightarrow> config_state \<Rightarrow> config_state \<times> (exn + json)" where
  "get_azure_settings json_loads s =
     (case load_config json_loads s of
        (s, Inl e) \<Rightarrow> (s, Inl e)
      | (s, Inr config) \<Rightarrow> (s, py_get (val config) ''azure'' (JObject (DEFAULT_azure s))))"

definition write_shared :: "config_state \<Rightarrow> string \<Rightarrow> json \<Rightarrow> config_state" where
  \<comment> \<open>the inner dict of \<open>DEFAULT_CONFIG\<close> under \<open>section\<close> now holds the items of \<open>v\<close>\<close>
  "write_shared s section v =
     (case v of
        JObject d \<Rightarrow>
          if section = ''openai'' then s\<lparr>DEFAULT_openai := d\<rparr>
          else if section = ''azure'' then s\<lparr>DEFAULT_azure := d\<rparr>
          else s
      | _ \<Rightarrow> s)"

definition setitem2 ::
  "config_state \<Rightarrow> config_ref \<Rightarrow> string \<Rightarrow> string \<Rightarrow> json \<Rightarrow> config_state \<times> (exn + config_ref)"
  where
  \<comment> \<open>\<open>config[section][key] = x\<close>: the inner object is read, then assigned into\<close>
  "setitem2 s config section key x =
     (case py_getitem (val config) section of
        Inl e \<Rightarrow> (s, Inl e)
      | Inr inner \<Rightarrow>
          (case py_setitem inner key x of
             Inl e \<Rightarrow> (s, Inl e)
           | Inr inner' \<Rightarrow>
               (if shares_default config then write_shared s section inner' else s,
                Inr (config\<lparr>val := (case val config of
                                       JObject d \<Rightarrow> JObject (AList.update section inner' d)
                                     | v \<Rightarrow> v)\<rparr>))))"

definition set_if_given ::
  "config_state \<times> (exn + config_ref) \<Rightarrow> string \<Rightarrow> string \<Rightarrow> string option \<Rightarrow>
   config_state \<times> (exn + config_ref)" where
  \<comment> \<open>\<open>if arg is not None: config[section][key] = arg\<close>, after the statements before it\<close>
  "set_if_given sc section key arg =
     (case sc of
        (s, Inl e) \<Rightarrow> (s, Inl e)
      | (s, Inr config) \<Rightarrow>
          (case arg of
             None \<Rightarrow> (s, Inr config)
           | Some x \<Rightarrow> setitem2 s config section key (JString x)))"

definition update_provider ::
  "(string \<Rightarrow> exn + json) \<Rightarrow> (json \<Rightarrow> string) \<Rightarrow> string \<Rightarrow> config_state \<Rightarrow>
   config_state \<times> (exn + unit)" where
  "update_provider json_loads json_dumps provider s =
     (case load_config json_loads s of
        (s, Inl e) \<Rightarrow> (s, Inl e)
      | (s, Inr config) \<Rightarrow>
          (case py_setitem (val config) ''provider'' (JString provider) of
             Inl e \<Rightarrow> (s, Inl e)
           | Inr config \<Rightarrow> save_config json_dumps s config))"

definition update_openai_settings ::
  "(string \<Rightarrow> exn + json) \<Rightarrow> (json \<Rightarrow> string) \<Rightarrow> string option \<Rightarrow> string option \<Rightarrow>
   config_state \<Rightarrow> config_state \<times> (exn + unit)" where
  "update_openai_settings json_loads json_dumps api_key model s =
     (case set_if_given
             (set_if_given (load_config json_loads s) ''openai'' ''api_key'' api_key)
             ''openai'' ''model'' model of
        (s, Inl e) \<Rightarrow> (s, Inl e)
      | (s, Inr config) \<Rightarrow> save_config json_dumps s (val config))"

definition update_azure_settings ::
  "(string \<Rightarrow> exn + json) \<Rightarrow> (json \<Rightarrow> string) \<Rightarrow> string option \<Rightarrow> string option \<Rightarrow>
   string option \<Rightarrow> string option \<Rightarrow> config_state \<Rightarrow> config_state \<times> (exn + unit)" where
  "update_azure_settings json_loads json_dumps api_key endpoint deployment api_version s =
     (case set_if_given
             (set_if_given
                (set_if_given
                   (set_if_given (load_config json_loads s) ''azure'' ''api_key'' api_key)
                   ''azure'' ''endpoint'' endpoint)
                ''azure'' ''deployment'' deployment)
             ''azure'' ''api_version'' api_version of
        (s, Inl e) \<Rightarrow> (s, Inl e)
      | (s, Inr config) \<Rightarrow> save_config json_dumps s (val config))"

definition redacted :: "json \<Rightarrow> exn + json" where
  \<comment> \<open>the conditional expression of lines 180 to 184 (and 187 to 191) on the value \<open>v\<close> of
      \<open>display_config[section]["api_key"]\<close>: the test \<open>len(v) > 4\<close> first, then one branch.
      Only a string can be appended to \<open>"***"\<close>; slicing a dict raises (TypeError before
      Python 3.12, KeyError from it on; an Exception either way).\<close>
  "redacted v =
     (case py_len v of
        Inl e \<Rightarrow> Inl e
      | Inr n \<Rightarrow>
          if n > 4 then
            (case v of
               JString k \<Rightarrow> Inr (JString (''***'' @ last4 k))
             | JObject d \<Rightarrow> Inl (Exn TypeError (''unhashable type: '' @ squote ''slice''))
             | _ \<Rightarrow> Inl (Exn TypeError
                        (''can only concatenate str (not '' @ dquote (py_type_name v)
                           @ '') to str'')))
          else Inr (JString ''***''))"

definition redact_section ::
  "config_state \<times> (exn + config_ref) \<Rightarrow> string \<Rightarrow> config_state \<times> (exn + config_ref)" where
  \<comment> \<open>one \<open>if\<close> statement of \<open>view_config\<close> (lines 179 to 184 for \<open>"openai"\<close>, 186 to 191 for
      \<open>"azure"\<close>), after the statements before it\<close>
  "redact_section sc section =
     (case sc of
        (s, Inl e) \<Rightarrow> (s, Inl e)
      | (s, Inr display_config) \<Rightarrow>
          (case py_get (val display_config) section (JObject []) of
             Inl e \<Rightarrow> (s, Inl e)
           | Inr sec \<Rightarrow>
               (case py_get sec ''api_key'' JNull of
                  Inl e \<Rightarrow> (s, Inl e)
                | Inr k \<Rightarrow>
                    if \<not> truthy k then (s, Inr display_config)
                    else
                      (case py_getitem (val display_config) section of
                         Inl e \<Rightarrow> (s, Inl e)
                       | Inr inner \<Rightarrow>
                           (case py_getitem inner ''api_key'' of
                              Inl e \<Rightarrow> (s, Inl e)
                            | Inr v \<Rightarrow>
                                (case redacted v of
                                   Inl e \<Rightarrow> (s, Inl e)
                                 | Inr r \<Rightarrow> setitem2 s display_config section ''api_key'' r))))))"

definition view_config ::
  "(string \<Rightarrow> exn + json) \<Rightarrow> (json \<Rightarrow> string) \<Rightarrow> config_state \<Rightarrow> config_state \<times> (exn + string)"
  where
  "view_config json_loads json_dumps s =
     (case load_config json_loads s of
        (s, Inl e) \<Rightarrow> (s, Inl e)
      | (s, Inr config) \<Rightarrow>
          (case py_copy (val config) of
             Inl e \<Rightarrow> (s, Inl e)
           | Inr display_config \<Rightarrow>
               (case redact_section
                       (redact_section (s, Inr (config\<lparr>val := display_config\<rparr>)) ''openai'')
                       ''azure'' of
                  (s, Inl e) \<Rightarrow> (s, Inl e)
                | (s, Inr display_config) \<Rightarrow> (s, Inr (json_dumps (val display_config))))))"

definition clear_config :: "(json \<Rightarrow> string) \<Rightarrow> config_state \<Rightarrow> config_state \<times> (exn + unit)" where
  "clear_config json_dumps s = save_config json_dumps s (DEFAULT_CONFIG s)"

subsection \<open>Reading a configuration\<close>

text \<open>
  The statements about the Settings Store read a configuration through these: the entry
  \<open>config[key]\<close>, the entry \<open>config[section][key]\<close>, a section after an optional argument
  has been stored in it, and the text that the redaction rule of the specification
  shows for a credential (an empty one is left empty).
\<close>

definition top_field :: "json \<Rightarrow> string \<Rightarrow> json option" where
  "top_field config key = (case config of JObject d \<Rightarrow> map_of d key | _ \<Rightarrow> None)"

definition config_field :: "json \<Rightarrow> string \<Rightarrow> string \<Rightarrow> json option" where
  "config_field config section key =
     (case top_field config section of Some (JObject sec) \<Rightarrow> map_of sec key | _ \<Rightarrow> None)"

definition put :: "string \<Rightarrow> string option \<Rightarrow> (string \<times> json) list \<Rightarrow> (string \<times> json) list" where
  "put key arg sec = (case arg of None \<Rightarrow> sec | Some x \<Rightarrow> AList.update key (JString x) sec)"

definition supplied :: "string option \<Rightarrow> json option \<Rightarrow> json option" where
  \<comment> \<open>the value supplied, and the previous one when none is\<close>
  "supplied arg previous = (case arg of None \<Rightarrow> previous | Some x \<Rightarrow> Some (JString x))"

definition redacted_text :: "string \<Rightarrow> string" where
  "redacted_text k =
     (if k = [] then [] else if length k > 4 then ''***'' @ last4 k else ''***'')"

section \<open>The Conversation Store: \<open>save_memory\<close> and \<open>load_memory\<close>\<close>

text \<open>
  A message is an instance of a subclass of \<open>BaseMessage\<close> with its text. What
  \<open>pickle.load\<close> returns is any Python object: a message, a list of objects, or something
  else. \<open>self.memory\<close> is \<open>None\<close> or a \<open>ConversationBufferMemory\<close>, which is the list
  \<open>memory.chat_memory.messages\<close>; \<open>create_memory()\<close> makes one with no messages.

  The place of the memory file is what the program sees of it: the file, absent or with
  its bytes; the text of the OSError that \<open>mkdir\<close> on the parent directory raises, if it
  does; the text of the OSError that opening the file for writing raises, if it does; and
  the text of the OSError that opening the file for reading raises, if it does. Writing
  the file changes its bytes and none of the three: a file that cannot be read before it
  is written cannot be read after. \<open>pickle_dumps\<close> and \<open>pickle_loads\<close> are \<open>pickle.dump\<close>
  and \<open>pickle.load\<close> on the bytes of the file; a list of messages pickles, and once the
  file is open the write is taken to reach it whole.
\<close>

datatype message_class = HumanMessage | AIMessage | SystemMessage

datatype message = Message message_class string

datatype pyobj = PyNone | PyStr string | PyMessage message | PyList "pyobj list"



fun as_message :: "pyobj \<Rightarrow> message option" where
  \<comment> \<open>\<open>isinstance(msg, BaseMessage)\<close>\<close>
  "as_message (PyMessage m) = Some m"
| "as_message v = None"

fun message_list :: "pyobj list \<Rightarrow> message list option" where
  \<comment> \<open>\<open>all(isinstance(msg, BaseMessage) for msg in chat_messages)\<close>: the messages when all
      elements are\<close>
  "message_list [] = Some []"
| "message_list (x # xs) =
     (case as_message x of
        None \<Rightarrow> None
      | Some m \<Rightarrow> (case message_list xs of None \<Rightarrow> None | Some ms \<Rightarrow> Some (m # ms)))"

fun as_messages :: "pyobj \<Rightarrow> message list option" where
  \<comment> \<open>the test of lines 380 to 382: a list, and all its elements messages\<close>
  "as_messages (PyList xs) = message_list xs"
| "as_messages v = None"













section \<open>Sample environments\<close>

text \<open>
  Concrete library behaviour and concrete inputs, on which the theorems below are
  instantiated. Each sample function answers as the library does on the few inputs it
  lists.
\<close>

definition sample_shlex_split :: "string \<Rightarrow> exn + string list" where
  "sample_shlex_split s =
     (if s = ''kubectl get pods'' then Inr [''kubectl'', ''get'', ''pods'']
      else if s = ''kubectl get pod nonexistent''
      then Inr [''kubectl'', ''get'', ''pod'', ''nonexistent'']
      else if s = ''kubectl get cm empty -o json''
      then Inr [''kubectl'', ''get'', ''cm'', ''empty'', ''-o'', ''json'']
      else if s = ''kubectl logs web'' then Inr [''kubectl'', ''logs'', ''web'']
      else if s = ''kubectl apply -f pod.yaml''
      then Inr [''kubectl'', ''apply'', ''-f'', ''pod.yaml'']
      else Inl (Exn ValueError ''No closing quotation''))"

definition invalid_start_byte :: string where
  \<comment> \<open>what decoding bytes whose fifth is \<open>0xff\<close> says, under a UTF-8 locale\<close>
  "invalid_start_byte =
     squote ''utf-8'' @ '' codec can'' @ [CHR 0x27]
       @ ''t decode byte 0xff in position 4: invalid start byte''"

definition sample_subprocess_run :: "string list \<Rightarrow> process" where
  \<comment> \<open>a cluster with no pods and an empty config map; the logs of \<open>web\<close> cannot be had and
      the child writes a byte that is no text; \<open>pod.yaml\<close> is rejected\<close>
  "sample_subprocess_run cmd_args =
     (if cmd_args = [''kubectl'', ''get'', ''pods'']
      then Completed \<lparr>returncode = 0,
                      stdout = ''No resources found in default namespace.'' @ [newline],
                      stderr = []\<rparr>
      else if cmd_args = [''kubectl'', ''get'', ''pod'', ''nonexistent'']
      then Completed \<lparr>returncode = 1, stdout = [],
                      stderr = ''Error from server (NotFound): pods nonexistent not found''
                                 @ [newline]\<rparr>
      else if cmd_args = [''kubectl'', ''get'', ''cm'', ''empty'', ''-o'', ''json'']
      then Completed \<lparr>returncode = 0, stdout = ''{}'' @ [newline], stderr = []\<rparr>
      else if cmd_args = [''kubectl'', ''logs'', ''web'']
      then Undecoded 1 (Exn UnicodeDecodeError invalid_start_byte)
      else if cmd_args = [''kubectl'', ''apply'', ''-f'', ''pod.yaml'']
      then Completed \<lparr>returncode = 1, stdout = [],
                      stderr = ''unknown field command: [/bin/sh, -c]'' @ [newline]\<rparr>
      else Raised (Exn OSError ''[Errno 2] No such file or directory''))"



definition big_number :: string where
  \<comment> \<open>an object whose one member is an integer of 5000 digits\<close>
  "big_number = ''{'' @ dquote ''n'' @ '': '' @ replicate 5000 (CHR ''1'') @ ''}''"

definition deeply_nested :: string where
  \<comment> \<open>100000 lines that each open an object, and one closing brace: no JSON text\<close>
  "deeply_nested =
     concat (replicate 100000 (''{'' @ dquote ''a'' @ '':'' @ [newline])) @ ''}''"

definition kind_pod :: string where
  "kind_pod = ''{'' @ dquote ''kind'' @ '': '' @ dquote ''Pod'' @ ''}''"

definition kind_pod_indented :: string where
  \<comment> \<open>three lines, the member indented by two blanks\<close>
  "kind_pod_indented =
     ''{'' @ [newline] @ ''  '' @ dquote ''kind'' @ '': '' @ dquote ''Pod'' @ [newline] @ ''}''"

definition exceeds_limit :: string where
  "exceeds_limit =
     ''Exceeds the limit (4300 digits) for integer string conversion: ''
       @ ''value has 5000 digits; use sys.set_int_max_str_digits() to increase the limit''"

definition recursion_depth :: string where
  "recursion_depth =
     ''maximum recursion depth exceeded while decoding a JSON object from a unicode string''"

definition sample_json_loads :: "string \<Rightarrow> exn + json" where
  \<comment> \<open>\<open>json.loads\<close> of CPython 3.11 on the texts listed: it reads the first three, raises
      ValueError on an integer of more than 4300 digits and RecursionError on nesting
      deeper than the interpreter's stack, and JSONDecodeError on what is no JSON text\<close>
  "sample_json_loads s =
     (if s = ''{}'' \<or> s = ''{}'' @ [newline] then Inr (JObject [])
      else if s = kind_pod then Inr (JObject [(''kind'', JString ''Pod'')])
      else if s = big_number then Inl (Exn ValueError exceeds_limit)
      else if s = deeply_nested then Inl (Exn RecursionError recursion_depth)
      else if startswith s ''{''
      then Inl (Exn JSONDecodeError
                  (''Expecting property name enclosed in double quotes: ''
                   @ ''line 1 column 2 (char 1)''))
      else Inl (Exn JSONDecodeError ''Expecting value: line 1 column 1 (char 0)''))"

definition sample_json_dumps :: "json \<Rightarrow> nat \<Rightarrow> exn + string" where
  \<comment> \<open>\<open>json.dumps(_, indent=n)\<close> on the two documents that \<open>sample_json_loads\<close> returns\<close>
  "sample_json_dumps j n =
     (if j = JObject [(''kind'', JString ''Pod'')] \<and> n = 2 then Inr kind_pod_indented
      else if j = JObject [] then Inr ''{}''
      else Inr ''null'')"

definition is_tag_start :: "char \<Rightarrow> bool" where
  \<comment> \<open>the class \<open>[a-z#/@]\<close>\<close>
  "is_tag_start c =
     (let n = (of_char c :: nat)
      in (97 \<le> n \<and> n \<le> 122) \<or> c = CHR ''#'' \<or> c = CHR ''/'' \<or> c = CHR ''@'')"

fun until_bracket :: "string \<Rightarrow> string option" where
  \<comment> \<open>the characters before the first \<open>]\<close>, when no \<open>[\<close> comes before it\<close>
  "until_bracket [] = None"
| "until_bracket (c # cs) =
     (if c = CHR '']'' then Some []
      else if c = CHR ''['' then None
      else map_option ((#) c) (until_bracket cs))"

definition tag_body :: "string \<Rightarrow> string option" where
  \<comment> \<open>the text of the tag that an opening bracket before \<open>cs\<close> starts, if it starts one\<close>
  "tag_body cs =
     (case cs of
        [] \<Rightarrow> None
      | c # cs' \<Rightarrow> if is_tag_start c then until_bracket cs else None)"

definition closes_nothing :: "string \<Rightarrow> nat \<Rightarrow> string" where
  \<comment> \<open>the text of the MarkupError on a closing tag, with this text between its brackets
      and at this position, that matches no open tag\<close>
  "closes_nothing body position =
     ''closing tag '' @ squote (''['' @ body @ '']'') @ '' at position '' @ str_nat position
       @ '' doesn'' @ [CHR 0x27] @ ''t match any open tag''"

definition nothing_to_close :: "nat \<Rightarrow> string" where
  "nothing_to_close position =
     ''closing tag '' @ squote ''[/]'' @ '' at position '' @ str_nat position
       @ '' has nothing to close''"

function markup_error :: "nat \<Rightarrow> string list \<Rightarrow> string \<Rightarrow> exn option" where
  \<comment> \<open>What the markup parser of the console library raises on a text, read from
      \<open>position\<close> with the tags \<open>opened\<close> open, the last one first: a closing tag closes
      the last open tag of its name, and \<open>[/]\<close> the last open tag. For texts without a
      backslash, and tags whose names are written as the library normalises them.\<close>
  "markup_error position opened [] = None"
| "markup_error position opened (c # cs) =
     (if c = CHR ''['' then
        (case tag_body cs of
           None \<Rightarrow> markup_error (Suc position) opened cs
         | Some body \<Rightarrow>
             let rest = drop (Suc (length body)) cs;
                 after = position + length body + 2;
                 tag_name = takeWhile (\<lambda>c. c \<noteq> CHR ''='') body
             in if hd tag_name = CHR ''/'' then
                  (let style_name = strip (tl tag_name)
                   in if style_name = [] then
                        (if opened = [] then Some (Exn MarkupError (nothing_to_close position))
                         else markup_error after (tl opened) rest)
                      else if style_name \<in> set opened
                      then markup_error after (remove1 style_name opened) rest
                      else Some (Exn MarkupError (closes_nothing body position)))
                else markup_error after (tag_name # opened) rest)
      else markup_error (Suc position) opened cs)"
  by pat_completeness auto

termination markup_error
  by (relation "measure (\<lambda>(position, opened, s). length s)") auto

fun first_error :: "string list \<Rightarrow> exn option" where
  "first_error [] = None"
| "first_error (s # ss) =
     (case markup_error 0 [] s of Some e \<Rightarrow> Some e | None \<Rightarrow> first_error ss)"

definition sample_console :: "console_call \<Rightarrow> exn option" where
  \<comment> \<open>A console that raises what the markup parser raises, and nothing else: on the text
      of a \<open>print\<close>, on the title of a \<open>rule\<close>, and on the first cell of a table, column by
      column, that the parser rejects. A \<open>Syntax\<close> object is no markup.\<close>
  "sample_console c =
     (case c of
        Print s \<Rightarrow> markup_error 0 [] s
      | Rule s \<Rightarrow> markup_error 0 [] s
      | Print_table title rows \<Rightarrow> first_error (map fst rows @ map snd rows @ [title])
      | _ \<Rightarrow> None)"



fun sample_config_dumps :: "json \<Rightarrow> string"
  and sample_items_dumps :: "json list \<Rightarrow> string"
  and sample_members_dumps :: "(string \<times> json) list \<Rightarrow> string" where
  \<comment> \<open>a compact rendering of the documents below, in place of the indented one\<close>
  "sample_config_dumps JNull = ''null''"
| "sample_config_dumps (JBool b) = (if b then ''true'' else ''false'')"
| "sample_config_dumps (JInt i) = (if i < 0 then ''-'' @ str_nat (nat (- i)) else str_nat (nat i))"
| "sample_config_dumps (JFloat r) = ''0.0''"
| "sample_config_dumps (JString s) = dquote s"
| "sample_config_dumps (JArray xs) = ''['' @ sample_items_dumps xs @ '']''"
| "sample_config_dumps (JObject d) = ''{'' @ sample_members_dumps d @ ''}''"
| "sample_items_dumps [] = []"
| "sample_items_dumps [x] = sample_config_dumps x"
| "sample_items_dumps (x # xs) = sample_config_dumps x @ '', '' @ sample_items_dumps xs"
| "sample_members_dumps [] = []"
| "sample_members_dumps [m] = dquote (fst m) @ '': '' @ sample_config_dumps (snd m)"
| "sample_members_dumps (m # ms) =
     dquote (fst m) @ '': '' @ sample_config_dumps (snd m) @ '', '' @ sample_members_dumps ms"

definition sample_openai :: "(string \<times> json) list" where
  "sample_openai = [(''api_key'', JString ''sk-test-1234''), (''model'', JString ''gpt-4o'')]"

definition sample_azure :: "(string \<times> json) list" where
  "sample_azure = [(''api_key'', JString ''abc''), (''endpoint'', JString []),
                   (''deployment'', JString []), (''api_version'', JString ''2023-05-15'')]"

definition sample_items :: "(string \<times> json) list" where
  "sample_items = [(''provider'', JString ''openai''), (''openai'', JObject sample_openai),
                   (''azure'', JObject sample_azure)]"

definition sample_config :: json where
  \<comment> \<open>a stored configuration: the defaults with an OpenAI key and an Azure key\<close>
  "sample_config = JObject sample_items"

definition sample_config_shown :: json where
  \<comment> \<open>\<open>sample_config\<close> as \<open>view_config\<close> shows it\<close>
  "sample_config_shown =
     JObject [(''provider'', JString ''openai''),
              (''openai'', JObject [(''api_key'', JString ''***1234''),
                                    (''model'', JString ''gpt-4o'')]),
              (''azure'', JObject [(''api_key'', JString ''***''),
                                   (''endpoint'', JString []),
                                   (''deployment'', JString []),
                                   (''api_version'', JString ''2023-05-15'')])]"

definition sample_config_azure_provider :: json where
  \<comment> \<open>\<open>sample_config\<close> after \<open>update_provider("azure")\<close>\<close>
  "sample_config_azure_provider =
     JObject [(''provider'', JString ''azure''),
              (''openai'', JObject [(''api_key'', JString ''sk-test-1234''),
                                    (''model'', JString ''gpt-4o'')]),
              (''azure'', JObject [(''api_key'', JString ''abc''),
                                   (''endpoint'', JString []),
                                   (''deployment'', JString []),
                                   (''api_version'', JString ''2023-05-15'')])]"

definition sample_config_openai_model :: json where
  \<comment> \<open>\<open>sample_config\<close> after \<open>update_openai_settings(model="gpt-4")\<close>\<close>
  "sample_config_openai_model =
     JObject [(''provider'', JString ''openai''),
              (''openai'', JObject [(''api_key'', JString ''sk-test-1234''),
                                    (''model'', JString ''gpt-4'')]),
              (''azure'', JObject [(''api_key'', JString ''abc''),
                                   (''endpoint'', JString []),
                                   (''deployment'', JString []),
                                   (''api_version'', JString ''2023-05-15'')])]"

definition sample_config_azure_endpoint :: json where
  \<comment> \<open>\<open>sample_config\<close> after
      \<open>update_azure_settings(api_key="azure-key-9", endpoint="https://example.test")\<close>\<close>
  "sample_config_azure_endpoint =
     JObject [(''provider'', JString ''openai''),
              (''openai'', JObject [(''api_key'', JString ''sk-test-1234''),
                                    (''model'', JString ''gpt-4o'')]),
              (''azure'', JObject [(''api_key'', JString ''azure-key-9''),
                                   (''endpoint'', JString ''https://example.test''),
                                   (''deployment'', JString []),
                                   (''api_version'', JString ''2023-05-15'')])]"

definition sample_config_loads :: "string \<Rightarrow> exn + json" where
  \<comment> \<open>reads the renderings of the four documents above, rejects every other text\<close>
  "sample_config_loads t =
     (case find (\<lambda>c. sample_config_dumps c = t)
             [sample_config, sample_config_azure_provider, sample_config_openai_model,
              sample_config_azure_endpoint] of
        Some c \<Rightarrow> Inr c
      | None \<Rightarrow> Inl (Exn JSONDecodeError ''Expecting value: line 1 column 1 (char 0)''))"

definition sample_store :: config_state where
  \<comment> \<open>a freshly imported module and a writable file that holds \<open>sample_config\<close>\<close>
  "sample_store = at_import (Dir (Text (sample_config_dumps sample_config)) None)"

definition sample_decode_error :: string where
  \<comment> \<open>what \<open>f.read()\<close> says of a file whose first byte is \<open>0xff\<close>, under a UTF-8 locale\<close>
  "sample_decode_error =
     squote ''utf-8'' @ '' codec can'' @ [CHR 0x27]
       @ ''t decode byte 0xff in position 0: invalid start byte''"

fun sample_pickle_dumps :: "pyobj \<Rightarrow> string"
  and sample_pickle_dumps_list :: "pyobj list \<Rightarrow> string" where
  \<comment> \<open>a readable rendering of the objects below, in place of the pickle format\<close>
  "sample_pickle_dumps PyNone = ''N''"
| "sample_pickle_dumps (PyStr s) = ''S'' @ dquote s"
| "sample_pickle_dumps (PyMessage (Message HumanMessage s)) = ''H'' @ dquote s"
| "sample_pickle_dumps (PyMessage (Message AIMessage s)) = ''A'' @ dquote s"
| "sample_pickle_dumps (PyMessage (Message SystemMessage s)) = ''Y'' @ dquote s"
| "sample_pickle_dumps (PyList xs) = ''['' @ sample_pickle_dumps_list xs @ '']''"
| "sample_pickle_dumps_list [] = []"
| "sample_pickle_dumps_list (x # xs) = sample_pickle_dumps x @ '';'' @ sample_pickle_dumps_list xs"






section \<open>Properties of the string operations\<close>

lemma split_newline_not_Nil [simp]: "split_newline s \<noteq> []"
  by (induction s) (auto split: list.splits)

lemma join_split_newline [simp]: "join_newline (split_newline s) = s"
proof (induction s)
  case Nil
  show ?case by simp
next
  case (Cons c cs)
  show ?case
  proof (cases "c = newline")
    case True
    obtain l ls where "split_newline cs = l # ls"
      using split_newline_not_Nil [of cs] by (cases "split_newline cs") auto
    with Cons True show ?thesis by simp
  next
    case False
    obtain l ls where sp: "split_newline cs = l # ls"
      using split_newline_not_Nil [of cs] by (cases "split_newline cs") auto
    with Cons False show ?thesis by (cases ls) auto
  qed
qed




section \<open>The console and the formatter: what the statements compose to\<close>

lemma console_calls_renders:
  "renders console calls \<Longrightarrow> console_calls console calls = (calls, Inr ())"
  by (induction calls) (simp_all add: renders_def)

lemma renders_append:
  "renders console (xs @ ys) \<longleftrightarrow> renders console xs \<and> renders console ys"
  by (simp add: renders_def)

lemma display_output_unshaped:
  assumes "\<not> json_shaped output"
  shows "display_output console json_loads json_dumps output =
           console_calls console (print_regular_output output)"
  using assms by (simp add: display_output_def)

lemma display_output_rejected:
  assumes "json_loads output = Inl (Exn JSONDecodeError msg)"
  shows "display_output console json_loads json_dumps output =
           console_calls console (print_regular_output output)"
  using assms
  by (simp add: display_output_def render_json_def then_do_def try_except_def
      split: prod.splits)

lemma display_output_parsed:
  assumes "json_shaped output"
    and "json_loads output = Inr parsed_output"
    and "json_dumps parsed_output 2 = Inr output_str"
    and "renders console [Print ''[bold green]Output:'', Print_syntax output_str ''json'' True]"
  shows "display_output console json_loads json_dumps output =
           ([Print ''[bold green]Output:'', Print_syntax output_str ''json'' True], Inr ())"
  using assms
  by (simp add: display_output_def render_json_def then_do_def try_except_def renders_def)

lemma display_output_raises:
  assumes "json_shaped output"
    and "json_loads output = Inl (Exn cls msg)"
    and "cls \<noteq> JSONDecodeError"
  shows "display_output console json_loads json_dumps output = ([], Inl (Exn cls msg))"
  using assms
  by (simp add: display_output_def render_json_def then_do_def try_except_def)

lemma display_kubectl_returns:
  assumes "renders console (display_header (tool_func_name tool_name name) args kwargs)"
    and "func args kwargs = Inr output"
    and "display_output console json_loads json_dumps output = (shown, Inr ())"
    and "console Rule_blank = None"
  shows "display_kubectl console tool_name name json_loads json_dumps True func args kwargs =
           (display_header (tool_func_name tool_name name) args kwargs @ shown @ [Rule_blank],
            Inr output)"
  using assms
  by (simp add: display_kubectl_def then_do_def try_except_def console_calls_renders)

lemma display_kubectl_plain:
  assumes "renders console (display_header (tool_func_name tool_name name) args kwargs)"
    and "func args kwargs = Inr output"
    and "\<not> json_shaped output \<or> json_loads output = Inl (Exn JSONDecodeError msg)"
    and "renders console (print_regular_output output @ [Rule_blank])"
  shows "display_kubectl console tool_name name json_loads json_dumps True func args kwargs =
           (display_header (tool_func_name tool_name name) args kwargs
              @ print_regular_output output @ [Rule_blank],
            Inr output)"
proof -
  from assms(4) have regular: "renders console (print_regular_output output)"
    and rule: "console Rule_blank = None"
    by (simp_all add: renders_append renders_def)
  from assms(3)
  have "display_output console json_loads json_dumps output =
          console_calls console (print_regular_output output)"
  proof
    assume "\<not> json_shaped output"
    then show ?thesis by (rule display_output_unshaped)
  next
    assume "json_loads output = Inl (Exn JSONDecodeError msg)"
    then show ?thesis by (rule display_output_rejected)
  qed
  then have out: "display_output console json_loads json_dumps output =
                    (print_regular_output output, Inr ())"
    by (simp only: console_calls_renders [OF regular])
  from assms(1,2) out rule show ?thesis by (rule display_kubectl_returns)
qed


lemma display_kubectl_loads_raises:
  assumes "renders console (display_header (tool_func_name tool_name name) args kwargs)"
    and "func args kwargs = Inr out"
    and "json_shaped out"
    and "json_loads out = Inl (Exn cls error_msg)"
    and "cls \<noteq> JSONDecodeError"
    and "is_Exception cls"
    and "renders console (display_error error_msg)"
  shows "display_kubectl console tool_name name json_loads json_dumps True func args kwargs =
           (display_header (tool_func_name tool_name name) args kwargs @ display_error error_msg,
            Inr (''Error: '' @ error_msg))"
  using assms
  by (simp add: display_kubectl_def then_do_def try_except_def console_calls_renders
      display_output_raises)


lemma print_regular_output_short:
  assumes "length (split_newline output) \<le> 20"
  shows "print_regular_output output = [Print ''[bold green]Output:'', Print output]"
  using assms by (simp add: print_regular_output_def Let_def)

lemma json_shaped_braces: "json_shaped (''{'' @ s @ ''}'')"
  by (simp add: json_shaped_def startswith_def endswith_def)

section \<open>The sample texts\<close>




lemma deeply_nested_shaped: "json_shaped deeply_nested"
proof -
  have "replicate 100000 (''{'' @ dquote ''a'' @ '':'' @ [newline])
          = (''{'' @ dquote ''a'' @ '':'' @ [newline])
              # replicate 99999 (''{'' @ dquote ''a'' @ '':'' @ [newline])"
    by (simp add: replicate_Suc [symmetric] del: replicate_Suc)
  then have eq: "deeply_nested
               = ''{'' @ (dquote ''a'' @ '':'' @ [newline]
                   @ concat (replicate 99999 (''{'' @ dquote ''a'' @ '':'' @ [newline]))) @ ''}''"
    by (simp add: deeply_nested_def)
  show ?thesis unfolding eq by (rule json_shaped_braces)
qed

lemma length_differs: "length xs \<noteq> length ys \<Longrightarrow> xs \<noteq> ys"
  by auto

lemma deeply_nested_length: "length deeply_nested = 600001"
  by (simp add: deeply_nested_def dquote_def length_concat sum_list_replicate)

lemma big_number_length: "length big_number = 5007"
  by (simp add: big_number_def dquote_def)

lemma big_number_shaped: "json_shaped big_number"
proof -
  have eq: "big_number = ''{'' @ (dquote ''n'' @ '': '' @ replicate 5000 (CHR ''1'')) @ ''}''"
    by (simp add: big_number_def)
  show ?thesis unfolding eq by (rule json_shaped_braces)
qed

lemma sample_json_loads_big_number:
  "sample_json_loads big_number = Inl (Exn ValueError exceeds_limit)"
proof -
  have "big_number \<noteq> ''{}''" "big_number \<noteq> ''{}'' @ [newline]" "big_number \<noteq> kind_pod"
    by (rule length_differs, simp add: big_number_length kind_pod_def dquote_def)+
  then show ?thesis by (simp add: sample_json_loads_def)
qed

lemma sample_json_loads_deeply_nested:
  "sample_json_loads deeply_nested = Inl (Exn RecursionError recursion_depth)"
proof -
  have "deeply_nested \<noteq> ''{}''" "deeply_nested \<noteq> ''{}'' @ [newline]"
    "deeply_nested \<noteq> kind_pod" "deeply_nested \<noteq> big_number"
    by (rule length_differs,
        simp add: deeply_nested_length big_number_length kind_pod_def dquote_def)+
  then show ?thesis by (simp add: sample_json_loads_def)
qed

lemma sample_json_loads_pods:
  "sample_json_loads ''{pods}''
     = Inl (Exn JSONDecodeError
              (''Expecting property name enclosed in double quotes: ''
               @ ''line 1 column 2 (char 1)''))"
proof -
  have "''{pods}'' \<noteq> big_number" "''{pods}'' \<noteq> deeply_nested"
    by (rule length_differs, simp add: deeply_nested_length big_number_length)+
  then show ?thesis
    by (simp add: sample_json_loads_def kind_pod_def dquote_def startswith_def)
qed

lemma sample_json_loads_command:
  "sample_json_loads ''{command: [/bin/sh, -c]}''
     = Inl (Exn JSONDecodeError
              (''Expecting property name enclosed in double quotes: ''
               @ ''line 1 column 2 (char 1)''))"
proof -
  have "''{command: [/bin/sh, -c]}'' \<noteq> big_number"
    "''{command: [/bin/sh, -c]}'' \<noteq> deeply_nested"
    by (rule length_differs, simp add: deeply_nested_length big_number_length)+
  then show ?thesis
    by (simp add: sample_json_loads_def kind_pod_def dquote_def startswith_def)
qed

lemma sample_json_loads_kind_pod:
  "sample_json_loads kind_pod = Inr (JObject [(''kind'', JString ''Pod'')])"
  by (simp add: sample_json_loads_def kind_pod_def dquote_def)

lemma sample_console_header:
  "renders sample_console (display_header (tool_func_name None ''describe'') [] [])"
  "renders sample_console (display_header (tool_func_name None ''logs'') [] [])"
  by code_simp+

lemma sample_header:
  "display_header (tool_func_name None ''describe'') [] []
     = [Print_blank, Rule ''[bold blue]EXECUTING: describe'', Print_table ''Parameters'' []]"
  "display_header (tool_func_name None ''logs'') [] []
     = [Print_blank, Rule ''[bold blue]EXECUTING: logs'', Print_table ''Parameters'' []]"
  by (simp_all add: display_header_def tool_func_name_def)

section \<open>The Command Runner: the command line\<close>

lemma kubectl_exec_command_prefixed:
  "startswith (strip command) ''kubectl '' \<Longrightarrow> kubectl_exec_command command = strip command"
  by (simp add: kubectl_exec_command_def)

lemma kubectl_exec_command_unprefixed:
  "\<not> startswith (strip command) ''kubectl '' \<Longrightarrow>
   kubectl_exec_command command = ''kubectl '' @ strip command"
  by (simp add: kubectl_exec_command_def)

lemma kubectl_exec_command_startswith:
  "startswith (kubectl_exec_command command) ''kubectl ''"
  by (simp add: kubectl_exec_command_def startswith_def Let_def)

text \<open>
  Claim C1: for every input, after trimming, the binary name \<open>kubectl\<close> is the leading token
  of the executed command line exactly once; an input that already has it gets no
  duplicate.

  The test of line 151 looks for the name followed by a blank. An input that is the name
  followed by a tab, or the bare name, has the name as its leading token and fails the
  test: the name is prepended a second time, and \<open>shlex.split\<close>, which splits at tabs as
  at blanks, yields the name twice.
\<close>

theorem kubectl_exec_command_duplicates_prefix:
  "kubectl_exec_command (''kubectl'' @ [CHR 0x09] @ ''get pods'')
     = ''kubectl kubectl'' @ [CHR 0x09] @ ''get pods'' \<and>
   kubectl_exec_command ''kubectl'' = ''kubectl kubectl''"
  by (simp add: kubectl_exec_command_def strip_def startswith_def isspace_def)

section \<open>The Command Runner: a failing command\<close>





section \<open>The Observation Formatter\<close>





text \<open>
  Claim C4: JSON rendering is attempted if and only if the result text, after trimming,
  begins with \<open>{\<close> and ends with \<open>}\<close>; a successful parse is pretty-printed with 2-space
  indentation, a failed one falls back to plain rendering.

  As stated the claim fails: line 93 tests the result itself, and nothing trims it. The
  output of \<open>kubectl get cm empty -o json\<close> ends with a newline; trimmed it has the shape,
  and \<open>json.loads\<close> would parse it, and the formatter renders it as plain text.

  Nor does every failed parse fall back to plain rendering. On an object with an integer
  of 5000 digits \<open>json.loads\<close> raises a ValueError that is no JSONDecodeError: the handler
  of line 110 displays it as an error, and the wrapper returns the text of the error in
  place of the result. And where the parse fails with JSONDecodeError, the plain
  rendering is attempted and not achieved when the text holds a closing markup tag: the
  console rejects it, and the wrapper raises.
\<close>

theorem display_kubectl_does_not_trim:
  "json_shaped (strip (''{}'' @ [newline])) \<and>
   sample_json_loads (''{}'' @ [newline]) = Inr (JObject []) \<and>
   kubectl_exec_tool sample_console sample_shlex_split sample_subprocess_run sample_json_loads
     sample_json_dumps True ''get cm empty -o json''
   = ([Print_blank,
       Rule ''[bold blue]EXECUTING: kubectl_exec'',
       Print_table ''Parameters'' [(''arg0'', ''get cm empty -o json'')],
       Print ''[bold cyan]Command:'',
       Print_syntax ''get cm empty -o json'' ''bash'' False,
       Print ''[bold green]Output:'',
       Print (''{}'' @ [newline]),
       Rule_blank],
      Inr (''{}'' @ [newline])) \<and>
   json_shaped big_number \<and>
   sample_json_loads big_number = Inl (Exn ValueError exceeds_limit) \<and>
   display_kubectl sample_console None ''describe'' sample_json_loads sample_json_dumps True
     (\<lambda>args kwargs. Inr big_number) [] []
   = ([Print_blank,
       Rule ''[bold blue]EXECUTING: describe'',
       Print_table ''Parameters'' [],
       Print ''[bold red]Error:'',
       Print exceeds_limit,
       Rule_blank],
      Inr (''Error: '' @ exceeds_limit)) \<and>
   json_shaped ''{command: [/bin/sh, -c]}'' \<and>
   display_kubectl sample_console None ''describe'' sample_json_loads sample_json_dumps True
     (\<lambda>args kwargs. Inr ''{command: [/bin/sh, -c]}'') [] []
   = ([Print_blank,
       Rule ''[bold blue]EXECUTING: describe'',
       Print_table ''Parameters'' [],
       Print ''[bold green]Output:'',
       Print ''{command: [/bin/sh, -c]}'',
       Print ''[bold red]Error:'',
       Print (closes_nothing ''/bin/sh, -c'' 10)],
      Inl (Exn MarkupError (closes_nothing ''/bin/sh, -c'' 13)))"
proof -
  have trimmed: "json_shaped (strip (''{}'' @ [newline]))"
    "sample_json_loads (''{}'' @ [newline]) = Inr (JObject [])"
    by (simp_all add: json_shaped_def strip_def startswith_def endswith_def isspace_def
        newline_def sample_json_loads_def)
  have untrimmed:
    "kubectl_exec_tool sample_console sample_shlex_split sample_subprocess_run sample_json_loads
       sample_json_dumps True ''get cm empty -o json''
     = ([Print_blank,
         Rule ''[bold blue]EXECUTING: kubectl_exec'',
         Print_table ''Parameters'' [(''arg0'', ''get cm empty -o json'')],
         Print ''[bold cyan]Command:'',
         Print_syntax ''get cm empty -o json'' ''bash'' False,
         Print ''[bold green]Output:'',
         Print (''{}'' @ [newline]),
         Rule_blank],
        Inr (''{}'' @ [newline]))"
    by code_simp
  have "renders sample_console (display_error exceeds_limit)"
    by code_simp
  then
  have "display_kubectl sample_console None ''describe'' sample_json_loads sample_json_dumps True
          (\<lambda>args kwargs. Inr big_number) [] []
        = (display_header (tool_func_name None ''describe'') [] [] @ display_error exceeds_limit,
           Inr (''Error: '' @ exceeds_limit))"
    using sample_console_header(1) big_number_shaped sample_json_loads_big_number
    by (simp add: display_kubectl_loads_raises [where cls = ValueError and out = big_number]
        is_Exception_def)
  then have number:
    "display_kubectl sample_console None ''describe'' sample_json_loads sample_json_dumps True
       (\<lambda>args kwargs. Inr big_number) [] []
     = ([Print_blank,
         Rule ''[bold blue]EXECUTING: describe'',
         Print_table ''Parameters'' [],
         Print ''[bold red]Error:'',
         Print exceeds_limit,
         Rule_blank],
        Inr (''Error: '' @ exceeds_limit))"
    by (simp add: sample_header display_error_def)
  have shaped: "json_shaped ''{command: [/bin/sh, -c]}''"
    by (simp add: json_shaped_def startswith_def endswith_def)
  have plain: "display_output sample_console sample_json_loads sample_json_dumps
                 ''{command: [/bin/sh, -c]}''
               = console_calls sample_console (print_regular_output ''{command: [/bin/sh, -c]}'')"
    using sample_json_loads_command by (rule display_output_rejected)
  have rejected: "console_calls sample_console (print_regular_output ''{command: [/bin/sh, -c]}'')
                  = ([Print ''[bold green]Output:'', Print ''{command: [/bin/sh, -c]}''],
                     Inl (Exn MarkupError (closes_nothing ''/bin/sh, -c'' 10)))"
    by code_simp
  have again: "console_calls sample_console (display_error (closes_nothing ''/bin/sh, -c'' 10))
               = ([Print ''[bold red]Error:'', Print (closes_nothing ''/bin/sh, -c'' 10)],
                  Inl (Exn MarkupError (closes_nothing ''/bin/sh, -c'' 13)))"
    by code_simp
  have markup:
    "display_kubectl sample_console None ''describe'' sample_json_loads sample_json_dumps True
       (\<lambda>args kwargs. Inr ''{command: [/bin/sh, -c]}'') [] []
     = ([Print_blank,
         Rule ''[bold blue]EXECUTING: describe'',
         Print_table ''Parameters'' [],
         Print ''[bold green]Output:'',
         Print ''{command: [/bin/sh, -c]}'',
         Print ''[bold red]Error:'',
         Print (closes_nothing ''/bin/sh, -c'' 10)],
        Inl (Exn MarkupError (closes_nothing ''/bin/sh, -c'' 13)))"
    by (simp add: display_kubectl_def then_do_def try_except_def plain rejected again
        console_calls_renders [OF sample_console_header(1), unfolded sample_header]
        sample_header is_Exception_def del: console_calls.simps)
  from trimmed untrimmed big_number_shaped sample_json_loads_big_number number shaped markup
  show ?thesis by (simp only: simp_thms)
qed

text \<open>
  Claim C4, amended: for every result string that the formatter renders (display flag
  on, the console accepting the header), JSON rendering is attempted if and only if the
  result text itself, untrimmed, begins with \<open>{\<close> and ends with \<open>}\<close>. When it does and
  \<open>json.loads\<close> parses it, the parsed value is printed as \<open>json.dumps\<close> renders it with
  \<open>indent=2\<close>; when it does and \<open>json.loads\<close> raises JSONDecodeError, the text is rendered
  plainly; when it does not, the text is rendered plainly whatever \<open>json.loads\<close> would
  say. In these three cases the result is returned unchanged, provided the console
  accepts what is printed. When the text has the shape and \<open>json.loads\<close> raises another
  \<open>Exception\<close>, nothing of the text is rendered: the error is displayed, and the string
  \<open>Error: \<close> followed by its text is returned.
\<close>

theorem display_kubectl_json_rendering:
  assumes "func args kwargs = Inr output"
    and "renders console (display_header (tool_func_name tool_name name) args kwargs)"
  shows "(json_shaped output \<and> json_loads output = Inr parsed \<and>
          json_dumps parsed 2 = Inr output_str \<and>
          renders console [Print ''[bold green]Output:'', Print_syntax output_str ''json'' True,
                           Rule_blank] \<longrightarrow>
            display_kubectl console tool_name name json_loads json_dumps True func args kwargs =
              (display_header (tool_func_name tool_name name) args kwargs
                 @ [Print ''[bold green]Output:'', Print_syntax output_str ''json'' True,
                    Rule_blank],
               Inr output)) \<and>
         (json_shaped output \<and> json_loads output = Inl (Exn JSONDecodeError msg) \<and>
          renders console (print_regular_output output @ [Rule_blank]) \<longrightarrow>
            display_kubectl console tool_name name json_loads json_dumps True func args kwargs =
              (display_header (tool_func_name tool_name name) args kwargs
                 @ print_regular_output output @ [Rule_blank],
               Inr output)) \<and>
         (\<not> json_shaped output \<and>
          renders console (print_regular_output output @ [Rule_blank]) \<longrightarrow>
            display_kubectl console tool_name name json_loads json_dumps True func args kwargs =
              (display_header (tool_func_name tool_name name) args kwargs
                 @ print_regular_output output @ [Rule_blank],
               Inr output)) \<and>
         (json_shaped output \<and> json_loads output = Inl (Exn cls error_msg) \<and>
          cls \<noteq> JSONDecodeError \<and> is_Exception cls \<and>
          renders console [Print ''[bold red]Error:'', Print error_msg, Rule_blank] \<longrightarrow>
            display_kubectl console tool_name name json_loads json_dumps True func args kwargs =
              (display_header (tool_func_name tool_name name) args kwargs
                 @ [Print ''[bold red]Error:'', Print error_msg, Rule_blank],
               Inr (''Error: '' @ error_msg)))"
proof (intro conjI impI; elim conjE)
  assume "json_shaped output" "json_loads output = Inr parsed"
    "json_dumps parsed 2 = Inr output_str"
    and r: "renders console [Print ''[bold green]Output:'',
                             Print_syntax output_str ''json'' True, Rule_blank]"
  moreover from r have "renders console [Print ''[bold green]Output:'',
                                         Print_syntax output_str ''json'' True]"
    and rule: "console Rule_blank = None"
    by (simp_all add: renders_def)
  ultimately
  have "display_output console json_loads json_dumps output =
          ([Print ''[bold green]Output:'', Print_syntax output_str ''json'' True], Inr ())"
    by (simp only: display_output_parsed)
  with assms(2,1) rule
  show "display_kubectl console tool_name name json_loads json_dumps True func args kwargs =
          (display_header (tool_func_name tool_name name) args kwargs
             @ [Print ''[bold green]Output:'', Print_syntax output_str ''json'' True, Rule_blank],
           Inr output)"
    using display_kubectl_returns
      [of console tool_name name args kwargs func "output" json_loads json_dumps
          "[Print ''[bold green]Output:'', Print_syntax output_str ''json'' True]"]
    by simp
next
  assume "json_loads output = Inl (Exn JSONDecodeError msg)"
    and "renders console (print_regular_output output @ [Rule_blank])"
  with assms
  show "display_kubectl console tool_name name json_loads json_dumps True func args kwargs =
          (display_header (tool_func_name tool_name name) args kwargs
             @ print_regular_output output @ [Rule_blank],
           Inr output)"
    using display_kubectl_plain
      [of console tool_name name args kwargs func "output" json_loads msg json_dumps]
    by simp
next
  assume "\<not> json_shaped output"
    and "renders console (print_regular_output output @ [Rule_blank])"
  with assms
  show "display_kubectl console tool_name name json_loads json_dumps True func args kwargs =
          (display_header (tool_func_name tool_name name) args kwargs
             @ print_regular_output output @ [Rule_blank],
           Inr output)"
    using display_kubectl_plain
      [of console tool_name name args kwargs func "output" json_loads msg json_dumps]
    by simp
next
  assume shaped: "json_shaped output"
    and loads: "json_loads output = Inl (Exn cls error_msg)"
    and other: "cls \<noteq> JSONDecodeError"
    and exc: "is_Exception cls"
    and r: "renders console [Print ''[bold red]Error:'', Print error_msg, Rule_blank]"
  from r have "renders console (display_error error_msg)"
    by (simp only: display_error_def)
  with assms(2,1) shaped loads other exc
  have "display_kubectl console tool_name name json_loads json_dumps True func args kwargs =
          (display_header (tool_func_name tool_name name) args kwargs @ display_error error_msg,
           Inr (''Error: '' @ error_msg))"
    by (rule display_kubectl_loads_raises)
  then show "display_kubectl console tool_name name json_loads json_dumps True func args kwargs =
          (display_header (tool_func_name tool_name name) args kwargs
             @ [Print ''[bold red]Error:'', Print error_msg, Rule_blank],
           Inr (''Error: '' @ error_msg))"
    by (simp only: display_error_def)
qed

theorem display_kubectl_json_rendering_witness:
  "json_shaped kind_pod \<and>
   display_kubectl sample_console None ''describe'' sample_json_loads sample_json_dumps True
     (\<lambda>args kwargs. Inr kind_pod) [] []
   = ([Print_blank,
       Rule ''[bold blue]EXECUTING: describe'',
       Print_table ''Parameters'' [],
       Print ''[bold green]Output:'',
       Print_syntax kind_pod_indented ''json'' True,
       Rule_blank],
      Inr kind_pod) \<and>
   json_shaped ''{pods}'' \<and>
   display_kubectl sample_console None ''describe'' sample_json_loads sample_json_dumps True
     (\<lambda>args kwargs. Inr ''{pods}'') [] []
   = ([Print_blank,
       Rule ''[bold blue]EXECUTING: describe'',
       Print_table ''Parameters'' [],
       Print ''[bold green]Output:'',
       Print ''{pods}'',
       Rule_blank],
      Inr ''{pods}'') \<and>
   \<not> json_shaped ''pods'' \<and>
   display_kubectl sample_console None ''describe'' sample_json_loads sample_json_dumps True
     (\<lambda>args kwargs. Inr ''pods'') [] []
   = ([Print_blank,
       Rule ''[bold blue]EXECUTING: describe'',
       Print_table ''Parameters'' [],
       Print ''[bold green]Output:'',
       Print ''pods'',
       Rule_blank],
      Inr ''pods'') \<and>
   json_shaped deeply_nested \<and>
   display_kubectl sample_console None ''describe'' sample_json_loads sample_json_dumps True
     (\<lambda>args kwargs. Inr deeply_nested) [] []
   = ([Print_blank,
       Rule ''[bold blue]EXECUTING: describe'',
       Print_table ''Parameters'' [],
       Print ''[bold red]Error:'',
       Print recursion_depth,
       Rule_blank],
      Inr (''Error: '' @ recursion_depth))"
proof -
  have s1: "json_shaped kind_pod" and s2: "json_shaped ''{pods}''"
    and s3: "\<not> json_shaped ''pods''"
    by (simp_all add: json_shaped_def startswith_def endswith_def kind_pod_def dquote_def)
  have d1: "sample_json_dumps (JObject [(''kind'', JString ''Pod'')]) 2 = Inr kind_pod_indented"
    by (simp add: sample_json_dumps_def)
  have p2: "print_regular_output ''{pods}'' = [Print ''[bold green]Output:'', Print ''{pods}'']"
    and p3: "print_regular_output ''pods'' = [Print ''[bold green]Output:'', Print ''pods'']"
    by (simp_all add: print_regular_output_def newline_def)
  have r1: "renders sample_console
              [Print ''[bold green]Output:'', Print_syntax kind_pod_indented ''json'' True,
               Rule_blank]"
    by (simp add: renders_def sample_console_def) code_simp
  have r2: "renders sample_console (print_regular_output ''{pods}'' @ [Rule_blank])"
    and r3: "renders sample_console (print_regular_output ''pods'' @ [Rule_blank])"
    and r4: "renders sample_console [Print ''[bold red]Error:'', Print recursion_depth, Rule_blank]"
    by code_simp+
  have exc: "is_Exception RecursionError" by (simp add: is_Exception_def)
  show ?thesis
    using display_kubectl_json_rendering
        [of "\<lambda>args kwargs. Inr kind_pod" "[]" "[]" kind_pod sample_console None "''describe''"
            sample_json_loads "JObject [(''kind'', JString ''Pod'')]" sample_json_dumps
            kind_pod_indented,
         OF refl sample_console_header(1)]
      display_kubectl_json_rendering
        [of "\<lambda>args kwargs. Inr ''{pods}''" "[]" "[]" "''{pods}''" sample_console None
            "''describe''" sample_json_loads _ sample_json_dumps _
            "''Expecting property name enclosed in double quotes: ''
               @ ''line 1 column 2 (char 1)''",
         OF refl sample_console_header(1)]
      display_kubectl_json_rendering
        [of "\<lambda>args kwargs. Inr ''pods''" "[]" "[]" "''pods''" sample_console None
            "''describe''" sample_json_loads _ sample_json_dumps,
         OF refl sample_console_header(1)]
      display_kubectl_json_rendering
        [of "\<lambda>args kwargs. Inr deeply_nested" "[]" "[]" deeply_nested sample_console None
            "''describe''" sample_json_loads _ sample_json_dumps _ _ RecursionError
            recursion_depth,
         OF refl sample_console_header(1)]
      s1 s2 s3 d1 r1 r2 r3 r4 exc deeply_nested_shaped sample_json_loads_kind_pod
      sample_json_loads_pods sample_json_loads_deeply_nested
    unfolding p2 p3 sample_header by simp
qed





text \<open>
  Claim C10: with the display flag off, the wrapper is the wrapped function: for every
  input it returns exactly what the function returns and makes no console call, and an
  exception that the function raises reaches the caller.
\<close>

theorem display_kubectl_off_is_func:
  "display_kubectl console tool_name name json_loads json_dumps False func args kwargs
     = ([], func args kwargs)"
  by (simp add: display_kubectl_def)

section \<open>The Settings Store: reading and writing the file\<close>

lemma load_config_stored:
  assumes "CONFIG_DIR s = Dir (Text t) w" and "json_loads t = Inr cfg"
  shows "load_config json_loads s = (s, Inr \<lparr>val = cfg, shares_default = False\<rparr>)"
proof -
  have "s\<lparr>CONFIG_DIR := Dir (Text t) w\<rparr> = s"
    using assms(1) by (cases s) simp
  then show ?thesis
    using assms by (simp add: load_config_def)
qed

lemma load_config_falls_back:
  assumes "ensure_config_dir (CONFIG_DIR s) = Inr (f, w)"
    and "f = Missing \<or> (\<exists>msg. f = Unreadable msg) \<or>
         (\<exists>t msg. f = Text t \<and> json_loads t = Inl (Exn JSONDecodeError msg))"
  shows "load_config json_loads s =
           (s\<lparr>CONFIG_DIR := Dir f w\<rparr>, Inr \<lparr>val = DEFAULT_CONFIG s, shares_default = True\<rparr>)"
  using assms by (auto simp add: load_config_def DEFAULT_CONFIG_copy_def DEFAULT_CONFIG_def)

lemma load_config_undecodable:
  assumes "CONFIG_DIR s = Dir (Undecodable msg) w"
  shows "load_config json_loads s = (s, Inl (Exn UnicodeDecodeError msg))"
proof -
  have "s\<lparr>CONFIG_DIR := Dir (Undecodable msg) w\<rparr> = s"
    using assms(1) by (cases s) simp
  then show ?thesis
    using assms by (simp add: load_config_def)
qed

text \<open>
  Claim C9: whenever the settings file is missing or holds malformed JSON, \<open>load_config\<close>
  returns the in-memory default record and never raises.

  The handler of line 52 catches JSONDecodeError and IOError, and for a missing file, an
  unreadable one and a text that \<open>json.load\<close> rejects the defaults come back, as
  \<open>load_config_falls_back\<close> says. A file whose bytes the text codec rejects is corrupted
  as well, and is no JSON; reading it raises UnicodeDecodeError, which is neither of the
  two, so the call raises where the comment on line 53 promises the defaults.
\<close>

theorem load_config_undecodable_file_raises:
  "load_config sample_config_loads (at_import (Dir (Undecodable sample_decode_error) None))
     = (at_import (Dir (Undecodable sample_decode_error) None),
        Inl (Exn UnicodeDecodeError sample_decode_error))"
  by (simp add: load_config_def at_import_def)

section \<open>The Settings Store: the shallow copy of the defaults\<close>

text \<open>
  With no settings file, \<open>load_config\<close> returns \<open>DEFAULT_CONFIG.copy()\<close>, whose sections are
  the dicts of \<open>DEFAULT_CONFIG\<close> itself: an update made then is also made to the global.
\<close>

lemma update_without_file_writes_default:
  "DEFAULT_openai (fst (update_openai_settings json_loads json_dumps (Some k) None
                          (at_import (NoDir None))))
     = [(''api_key'', JString k), (''model'', JString ''gpt-4o'')]"
  by (simp add: update_openai_settings_def load_config_def set_if_given_def setitem2_def
      DEFAULT_CONFIG_copy_def DEFAULT_CONFIG_def write_shared_def save_config_def at_import_def)

section \<open>The Settings Store: updates\<close>

lemma save_config_writable:
  assumes "CONFIG_DIR s = Dir f None"
  shows "save_config json_dumps s c =
           (s\<lparr>CONFIG_DIR := Dir (Text (json_dumps c)) None\<rparr>, Inr ())"
  using assms by (simp add: save_config_def)

lemma setitem2_stored:
  assumes "map_of d section = Some (JObject inner)"
  shows "setitem2 s \<lparr>val = JObject d, shares_default = False\<rparr> section key x =
           (s, Inr \<lparr>val = JObject (AList.update section (JObject (AList.update key x inner)) d),
                    shares_default = False\<rparr>)"
  using assms by (simp add: setitem2_def)

lemma set_if_given_stored:
  assumes "map_of d section = Some (JObject inner)"
  shows "set_if_given (s, Inr \<lparr>val = JObject d, shares_default = False\<rparr>) section key arg =
           (s, Inr \<lparr>val = JObject (AList.update section (JObject (put key arg inner)) d),
                    shares_default = False\<rparr>)"
proof (cases arg)
  case None
  then show ?thesis
    using assms by (simp add: set_if_given_def put_def update_triv)
next
  case (Some x)
  then show ?thesis
    using assms by (simp add: set_if_given_def put_def setitem2_stored)
qed

lemma set_if_given_again:
  "set_if_given
     (s, Inr \<lparr>val = JObject (AList.update section (JObject inner) d), shares_default = False\<rparr>)
     section key arg =
   (s, Inr \<lparr>val = JObject (AList.update section (JObject (put key arg inner)) d),
            shares_default = False\<rparr>)"
  using set_if_given_stored [of "AList.update section (JObject inner) d" "section" inner s key arg]
  by (simp add: update_conv' update_last)

lemma map_of_put:
  "map_of (put key arg sec) k = (if k = key then supplied arg (map_of sec k) else map_of sec k)"
  by (cases arg) (simp_all add: put_def supplied_def update_conv')


lemma update_provider_stored:
  assumes "CONFIG_DIR s = Dir (Text t) None" and "json_loads t = Inr (JObject d)"
  shows "update_provider json_loads json_dumps provider s =
           (s\<lparr>CONFIG_DIR :=
                Dir (Text (json_dumps (JObject (AList.update ''provider'' (JString provider) d))))
                  None\<rparr>,
            Inr ())"
proof -
  have "load_config json_loads s = (s, Inr \<lparr>val = JObject d, shares_default = False\<rparr>)"
    using assms by (rule load_config_stored)
  then show ?thesis
    using assms(1) by (simp add: update_provider_def save_config_writable)
qed

lemma update_openai_settings_stored:
  assumes "CONFIG_DIR s = Dir (Text t) None" and "json_loads t = Inr (JObject d)"
    and "map_of d ''openai'' = Some (JObject od)"
  shows "update_openai_settings json_loads json_dumps api_key model s =
           (s\<lparr>CONFIG_DIR :=
                Dir (Text (json_dumps (JObject (AList.update ''openai''
                       (JObject (put ''model'' model (put ''api_key'' api_key od))) d))))
                  None\<rparr>,
            Inr ())"
proof -
  have "load_config json_loads s = (s, Inr \<lparr>val = JObject d, shares_default = False\<rparr>)"
    using assms(1,2) by (rule load_config_stored)
  then show ?thesis
    using assms(1,3)
    by (simp add: update_openai_settings_def set_if_given_stored set_if_given_again
        save_config_writable)
qed

lemma update_azure_settings_stored:
  assumes "CONFIG_DIR s = Dir (Text t) None" and "json_loads t = Inr (JObject d)"
    and "map_of d ''azure'' = Some (JObject ad)"
  shows "update_azure_settings json_loads json_dumps api_key endpoint deployment api_version s =
           (s\<lparr>CONFIG_DIR :=
                Dir (Text (json_dumps (JObject (AList.update ''azure''
                       (JObject (put ''api_version'' api_version (put ''deployment'' deployment
                                   (put ''endpoint'' endpoint (put ''api_key'' api_key ad)))))
                       d))))
                  None\<rparr>,
            Inr ())"
proof -
  have "load_config json_loads s = (s, Inr \<lparr>val = JObject d, shares_default = False\<rparr>)"
    using assms(1,2) by (rule load_config_stored)
  then show ?thesis
    using assms(1,3)
    by (simp add: update_azure_settings_def set_if_given_stored set_if_given_again
        save_config_writable)
qed

lemma load_config_written:
  assumes "json_loads (json_dumps c) = Inr c"
  shows "load_config json_loads (s\<lparr>CONFIG_DIR := Dir (Text (json_dumps c)) None\<rparr>) =
           (s\<lparr>CONFIG_DIR := Dir (Text (json_dumps c)) None\<rparr>,
            Inr \<lparr>val = c, shares_default = False\<rparr>)"
  using load_config_stored [of "s\<lparr>CONFIG_DIR := Dir (Text (json_dumps c)) None\<rparr>" "json_dumps c"
      None json_loads c] assms
  by simp

lemma top_field_update:
  "top_field (JObject (AList.update k v d)) key = (if key = k then Some v else map_of d key)"
  by (simp add: top_field_def update_conv')

lemma config_field_update_section:
  "config_field (JObject (AList.update section (JObject sec) d)) section key = map_of sec key"
  by (simp add: config_field_def top_field_update)

lemma config_field_update_other:
  "section' \<noteq> section \<Longrightarrow>
   config_field (JObject (AList.update section v d)) section' key = config_field (JObject d) section' key"
  by (simp add: config_field_def top_field_def update_conv')

lemma sample_store_dir:
  "CONFIG_DIR sample_store = Dir (Text (sample_config_dumps sample_config)) None"
  by (simp add: sample_store_def at_import_def)

lemma sample_config_loads_stored:
  "sample_config_loads (sample_config_dumps sample_config) = Inr (JObject sample_items)"
  by code_simp

lemma sample_sections:
  "map_of sample_items ''openai'' = Some (JObject sample_openai)"
  "map_of sample_items ''azure'' = Some (JObject sample_azure)"
  "map_of sample_openai ''api_key'' = Some (JString ''sk-test-1234'')"
  "map_of sample_azure ''api_key'' = Some (JString ''abc'')"
  by (simp_all add: sample_items_def sample_openai_def sample_azure_def)

text \<open>
  Claim C7: for each of \<open>update_provider\<close>, \<open>update_openai_settings\<close> and
  \<open>update_azure_settings\<close>, applied to a well-formed stored configuration, reading the
  settings again right after the write yields the new value of every field that was
  supplied, and the previous value of every field that was not.

  The stored configuration is well-formed: the file holds a JSON object whose \<open>"openai"\<close>
  and \<open>"azure"\<close> entries are objects, and it can be written. \<open>cfgP\<close>, \<open>cfgO\<close> and \<open>cfgA\<close>
  are the documents that the three operations write, and the JSON library reads each of
  them back as it was written. Each operation returns normally, \<open>load_config\<close> then
  returns the document written, and in it every field supplied holds the value supplied
  and every other field and entry holds what it held before.
\<close>

theorem settings_update_then_reread:
  assumes "CONFIG_DIR s = Dir (Text t) None"
    and "json_loads t = Inr (JObject d)"
    and "map_of d ''openai'' = Some (JObject od)"
    and "map_of d ''azure'' = Some (JObject ad)"
    and "cfgP = JObject (AList.update ''provider'' (JString provider) d)"
    and "cfgO = JObject (AList.update ''openai''
                  (JObject (put ''model'' model (put ''api_key'' api_key od))) d)"
    and "cfgA = JObject (AList.update ''azure''
                  (JObject (put ''api_version'' api_version (put ''deployment'' deployment
                              (put ''endpoint'' endpoint (put ''api_key'' azure_key ad))))) d)"
    and "json_loads (json_dumps cfgP) = Inr cfgP"
    and "json_loads (json_dumps cfgO) = Inr cfgO"
    and "json_loads (json_dumps cfgA) = Inr cfgA"
  shows
    "update_provider json_loads json_dumps provider s =
       (s\<lparr>CONFIG_DIR := Dir (Text (json_dumps cfgP)) None\<rparr>, Inr ()) \<and>
     load_config json_loads (s\<lparr>CONFIG_DIR := Dir (Text (json_dumps cfgP)) None\<rparr>) =
       (s\<lparr>CONFIG_DIR := Dir (Text (json_dumps cfgP)) None\<rparr>,
        Inr \<lparr>val = cfgP, shares_default = False\<rparr>) \<and>
     top_field cfgP ''provider'' = Some (JString provider) \<and>
     (\<forall>key. key \<noteq> ''provider'' \<longrightarrow> top_field cfgP key = top_field (JObject d) key) \<and>
     update_openai_settings json_loads json_dumps api_key model s =
       (s\<lparr>CONFIG_DIR := Dir (Text (json_dumps cfgO)) None\<rparr>, Inr ()) \<and>
     load_config json_loads (s\<lparr>CONFIG_DIR := Dir (Text (json_dumps cfgO)) None\<rparr>) =
       (s\<lparr>CONFIG_DIR := Dir (Text (json_dumps cfgO)) None\<rparr>,
        Inr \<lparr>val = cfgO, shares_default = False\<rparr>) \<and>
     config_field cfgO ''openai'' ''api_key'' = supplied api_key (map_of od ''api_key'') \<and>
     config_field cfgO ''openai'' ''model'' = supplied model (map_of od ''model'') \<and>
     (\<forall>key. key \<noteq> ''api_key'' \<and> key \<noteq> ''model'' \<longrightarrow>
        config_field cfgO ''openai'' key = map_of od key) \<and>
     (\<forall>key. key \<noteq> ''openai'' \<longrightarrow> top_field cfgO key = top_field (JObject d) key) \<and>
     update_azure_settings json_loads json_dumps azure_key endpoint deployment api_version s =
       (s\<lparr>CONFIG_DIR := Dir (Text (json_dumps cfgA)) None\<rparr>, Inr ()) \<and>
     load_config json_loads (s\<lparr>CONFIG_DIR := Dir (Text (json_dumps cfgA)) None\<rparr>) =
       (s\<lparr>CONFIG_DIR := Dir (Text (json_dumps cfgA)) None\<rparr>,
        Inr \<lparr>val = cfgA, shares_default = False\<rparr>) \<and>
     config_field cfgA ''azure'' ''api_key'' = supplied azure_key (map_of ad ''api_key'') \<and>
     config_field cfgA ''azure'' ''endpoint'' = supplied endpoint (map_of ad ''endpoint'') \<and>
     config_field cfgA ''azure'' ''deployment'' = supplied deployment (map_of ad ''deployment'') \<and>
     config_field cfgA ''azure'' ''api_version'' = supplied api_version (map_of ad ''api_version'') \<and>
     (\<forall>key. key \<noteq> ''api_key'' \<and> key \<noteq> ''endpoint'' \<and> key \<noteq> ''deployment'' \<and>
            key \<noteq> ''api_version'' \<longrightarrow>
        config_field cfgA ''azure'' key = map_of ad key) \<and>
     (\<forall>key. key \<noteq> ''azure'' \<longrightarrow> top_field cfgA key = top_field (JObject d) key)"
proof -
  have p1: "update_provider json_loads json_dumps provider s =
              (s\<lparr>CONFIG_DIR := Dir (Text (json_dumps cfgP)) None\<rparr>, Inr ())"
    unfolding assms(5) using assms(1,2) by (rule update_provider_stored)
  have p2: "load_config json_loads (s\<lparr>CONFIG_DIR := Dir (Text (json_dumps cfgP)) None\<rparr>) =
              (s\<lparr>CONFIG_DIR := Dir (Text (json_dumps cfgP)) None\<rparr>,
               Inr \<lparr>val = cfgP, shares_default = False\<rparr>)"
    using assms(8) by (rule load_config_written)
  have p3: "top_field cfgP ''provider'' = Some (JString provider)"
    and p4: "\<forall>key. key \<noteq> ''provider'' \<longrightarrow> top_field cfgP key = top_field (JObject d) key"
    unfolding assms(5) by (simp_all add: top_field_def update_conv')
  have o1: "update_openai_settings json_loads json_dumps api_key model s =
              (s\<lparr>CONFIG_DIR := Dir (Text (json_dumps cfgO)) None\<rparr>, Inr ())"
    unfolding assms(6) using assms(1,2,3) by (rule update_openai_settings_stored)
  have o2: "load_config json_loads (s\<lparr>CONFIG_DIR := Dir (Text (json_dumps cfgO)) None\<rparr>) =
              (s\<lparr>CONFIG_DIR := Dir (Text (json_dumps cfgO)) None\<rparr>,
               Inr \<lparr>val = cfgO, shares_default = False\<rparr>)"
    using assms(9) by (rule load_config_written)
  have o3: "config_field cfgO ''openai'' key =
              map_of (put ''model'' model (put ''api_key'' api_key od)) key" for key
    unfolding assms(6) by (rule config_field_update_section)
  have o4: "\<forall>key. key \<noteq> ''openai'' \<longrightarrow> top_field cfgO key = top_field (JObject d) key"
    unfolding assms(6) by (simp add: top_field_def update_conv')
  have a1: "update_azure_settings json_loads json_dumps azure_key endpoint deployment api_version s =
              (s\<lparr>CONFIG_DIR := Dir (Text (json_dumps cfgA)) None\<rparr>, Inr ())"
    unfolding assms(7) using assms(1,2,4) by (rule update_azure_settings_stored)
  have a2: "load_config json_loads (s\<lparr>CONFIG_DIR := Dir (Text (json_dumps cfgA)) None\<rparr>) =
              (s\<lparr>CONFIG_DIR := Dir (Text (json_dumps cfgA)) None\<rparr>,
               Inr \<lparr>val = cfgA, shares_default = False\<rparr>)"
    using assms(10) by (rule load_config_written)
  have a3: "config_field cfgA ''azure'' key =
              map_of (put ''api_version'' api_version (put ''deployment'' deployment
                       (put ''endpoint'' endpoint (put ''api_key'' azure_key ad)))) key" for key
    unfolding assms(7) by (rule config_field_update_section)
  have a4: "\<forall>key. key \<noteq> ''azure'' \<longrightarrow> top_field cfgA key = top_field (JObject d) key"
    unfolding assms(7) by (simp add: top_field_def update_conv')
  show ?thesis
    using p1 p2 p3 p4 o1 o2 o4 a1 a2 a4
    by (simp add: o3 a3 map_of_put)
qed

theorem settings_update_then_reread_witness:
  "update_provider sample_config_loads sample_config_dumps ''azure'' sample_store =
     (sample_store\<lparr>CONFIG_DIR :=
        Dir (Text (sample_config_dumps sample_config_azure_provider)) None\<rparr>, Inr ()) \<and>
   load_config sample_config_loads
     (sample_store\<lparr>CONFIG_DIR :=
        Dir (Text (sample_config_dumps sample_config_azure_provider)) None\<rparr>) =
     (sample_store\<lparr>CONFIG_DIR :=
        Dir (Text (sample_config_dumps sample_config_azure_provider)) None\<rparr>,
      Inr \<lparr>val = sample_config_azure_provider, shares_default = False\<rparr>) \<and>
   update_openai_settings sample_config_loads sample_config_dumps None (Some ''gpt-4'') sample_store =
     (sample_store\<lparr>CONFIG_DIR :=
        Dir (Text (sample_config_dumps sample_config_openai_model)) None\<rparr>, Inr ()) \<and>
   config_field sample_config_openai_model ''openai'' ''model'' = Some (JString ''gpt-4'') \<and>
   config_field sample_config_openai_model ''openai'' ''api_key'' = Some (JString ''sk-test-1234'') \<and>
   update_azure_settings sample_config_loads sample_config_dumps
       (Some ''azure-key-9'') (Some ''https://example.test'') None None sample_store =
     (sample_store\<lparr>CONFIG_DIR :=
        Dir (Text (sample_config_dumps sample_config_azure_endpoint)) None\<rparr>, Inr ()) \<and>
   config_field sample_config_azure_endpoint ''azure'' ''endpoint''
     = Some (JString ''https://example.test'') \<and>
   config_field sample_config_azure_endpoint ''azure'' ''api_version''
     = Some (JString ''2023-05-15'')"
proof -
  have cP: "sample_config_azure_provider
              = JObject (AList.update ''provider'' (JString ''azure'') sample_items)"
    by code_simp
  have cO: "sample_config_openai_model
              = JObject (AList.update ''openai''
                  (JObject (put ''model'' (Some ''gpt-4'') (put ''api_key'' None sample_openai)))
                  sample_items)"
    by code_simp
  have cA: "sample_config_azure_endpoint
              = JObject (AList.update ''azure''
                  (JObject (put ''api_version'' None (put ''deployment'' None
                     (put ''endpoint'' (Some ''https://example.test'')
                        (put ''api_key'' (Some ''azure-key-9'') sample_azure)))))
                  sample_items)"
    by code_simp
  have rP: "sample_config_loads (sample_config_dumps sample_config_azure_provider)
              = Inr sample_config_azure_provider"
    by code_simp
  have rO: "sample_config_loads (sample_config_dumps sample_config_openai_model)
              = Inr sample_config_openai_model"
    by code_simp
  have rA: "sample_config_loads (sample_config_dumps sample_config_azure_endpoint)
              = Inr sample_config_azure_endpoint"
    by code_simp
  have old: "map_of sample_openai ''api_key'' = Some (JString ''sk-test-1234'')"
       "map_of sample_azure ''api_version'' = Some (JString ''2023-05-15'')"
    by (simp_all add: sample_openai_def sample_azure_def)
  from settings_update_then_reread
    [where s = sample_store and t = "sample_config_dumps sample_config"
       and json_loads = sample_config_loads and json_dumps = sample_config_dumps
       and d = sample_items and od = sample_openai and ad = sample_azure
       and cfgP = sample_config_azure_provider and provider = "''azure''"
       and cfgO = sample_config_openai_model and api_key = None and model = "Some ''gpt-4''"
       and cfgA = sample_config_azure_endpoint and azure_key = "Some ''azure-key-9''"
       and endpoint = "Some ''https://example.test''" and deployment = None
       and api_version = None,
     OF sample_store_dir sample_config_loads_stored sample_sections(1) sample_sections(2)
       cP cO cA rP rO rA]
  show ?thesis by (simp add: supplied_def old)
qed

section \<open>The Settings Store: redaction\<close>

lemma redacted_string:
  "k \<noteq> [] \<Longrightarrow> redacted (JString k) = Inr (JString (redacted_text k))"
  by (simp add: redacted_def redacted_text_def)

lemma redact_section_string:
  assumes "map_of d section = Some (JObject sec)"
    and "map_of sec ''api_key'' = Some (JString k)"
  shows "redact_section (s, Inr \<lparr>val = JObject d, shares_default = False\<rparr>) section =
           (s, Inr \<lparr>val = JObject (AList.update section
                                     (JObject (AList.update ''api_key'' (JString (redacted_text k)) sec))
                                     d),
                    shares_default = False\<rparr>)"
proof (cases "k = []")
  case True
  then show ?thesis
    using assms by (simp add: redact_section_def redacted_text_def update_triv)
next
  case False
  then show ?thesis
    using assms by (simp add: redact_section_def redacted_string setitem2_stored)
qed

lemma redacted_text_long:
  assumes "4 < length k"
  shows "redacted_text k = ''***'' @ last4 k"
    and "length (redacted_text k) = 7"
    and "take 3 (redacted_text k) = ''***''"
    and "drop 3 (redacted_text k) = drop (length k - 4) k"
  using assms by (auto simp add: redacted_text_def last4_def)

lemma redacted_text_suffix:
  assumes "pre \<noteq> []" and "length suf = 4"
  shows "redacted_text (pre @ suf) = ''***'' @ suf"
  using assms by (simp add: redacted_text_def last4_def)

lemma redacted_text_short:
  assumes "k \<noteq> []" and "length k \<le> 4"
  shows "redacted_text k = ''***''"
  using assms by (simp add: redacted_text_def)

text \<open>
  Claim C6: for every stored API key longer than 4 characters, what \<open>view_config\<close> shows
  in its place begins with \<open>***\<close>, ends with exactly the last 4 characters of the key and
  contains none of the remaining characters; a non-empty key of 4 characters or fewer is
  shown as \<open>***\<close>.

  \<open>view_config\<close> returns the rendering of the stored configuration with both keys
  replaced by \<open>redacted_text\<close> of them and nothing else changed. For a key longer than 4
  characters that text is the three stars followed by the last four characters, seven
  characters in all: whatever precedes the last four characters of the key has no part
  in it, and two keys with the same last four characters are shown alike.
\<close>

theorem view_config_redacts_api_keys:
  assumes "CONFIG_DIR s = Dir (Text t) w"
    and "json_loads t = Inr (JObject d)"
    and "map_of d ''openai'' = Some (JObject od)"
    and "map_of od ''api_key'' = Some (JString k)"
    and "map_of d ''azure'' = Some (JObject ad)"
    and "map_of ad ''api_key'' = Some (JString k')"
    and "shown =
           JObject (AList.update ''azure''
                      (JObject (AList.update ''api_key'' (JString (redacted_text k')) ad))
                      (AList.update ''openai''
                         (JObject (AList.update ''api_key'' (JString (redacted_text k)) od)) d))"
  shows "view_config json_loads json_dumps s = (s, Inr (json_dumps shown)) \<and>
         config_field shown ''openai'' ''api_key'' = Some (JString (redacted_text k)) \<and>
         config_field shown ''azure'' ''api_key'' = Some (JString (redacted_text k')) \<and>
         (\<forall>key. 4 < length key \<longrightarrow>
            redacted_text key = ''***'' @ last4 key \<and>
            last4 key = drop (length key - 4) key \<and>
            length (redacted_text key) = 7) \<and>
         (\<forall>pre suf. pre \<noteq> [] \<and> length suf = 4 \<longrightarrow> redacted_text (pre @ suf) = ''***'' @ suf) \<and>
         (\<forall>key key'. 4 < length key \<and> 4 < length key' \<and> last4 key = last4 key' \<longrightarrow>
            redacted_text key = redacted_text key') \<and>
         (\<forall>key. key \<noteq> [] \<and> length key \<le> 4 \<longrightarrow> redacted_text key = ''***'')"
proof -
  have load: "load_config json_loads s = (s, Inr \<lparr>val = JObject d, shares_default = False\<rparr>)"
    using assms(1,2) by (rule load_config_stored)
  have first: "redact_section (s, Inr \<lparr>val = JObject d, shares_default = False\<rparr>) ''openai'' =
      (s, Inr \<lparr>val = JObject (AList.update ''openai''
                               (JObject (AList.update ''api_key'' (JString (redacted_text k)) od)) d),
               shares_default = False\<rparr>)"
    using assms(3,4) by (rule redact_section_string)
  have azure: "map_of (AList.update ''openai''
                 (JObject (AList.update ''api_key'' (JString (redacted_text k)) od)) d) ''azure''
               = Some (JObject ad)"
    using assms(5) by (simp add: update_conv')
  have second: "redact_section
      (s, Inr \<lparr>val = JObject (AList.update ''openai''
                               (JObject (AList.update ''api_key'' (JString (redacted_text k)) od)) d),
               shares_default = False\<rparr>) ''azure'' =
      (s, Inr \<lparr>val = shown, shares_default = False\<rparr>)"
    unfolding assms(7) using azure assms(6) by (rule redact_section_string)
  have view: "view_config json_loads json_dumps s = (s, Inr (json_dumps shown))"
    by (simp add: view_config_def load first second)
  have f1: "config_field shown ''openai'' ''api_key'' = Some (JString (redacted_text k))"
    unfolding assms(7) by (simp add: config_field_def top_field_def update_conv')
  have f2: "config_field shown ''azure'' ''api_key'' = Some (JString (redacted_text k'))"
    unfolding assms(7) by (simp add: config_field_def top_field_def update_conv')
  show ?thesis
    using view f1 f2 redacted_text_long(1,2) redacted_text_suffix redacted_text_short
    by (simp add: last4_def)
qed

theorem view_config_redacts_api_keys_witness:
  "view_config sample_config_loads sample_config_dumps sample_store
     = (sample_store, Inr (sample_config_dumps sample_config_shown)) \<and>
   config_field sample_config_shown ''openai'' ''api_key'' = Some (JString ''***1234'') \<and>
   config_field sample_config_shown ''azure'' ''api_key'' = Some (JString ''***'')"
proof -
  have shown: "sample_config_shown =
      JObject (AList.update ''azure''
                 (JObject (AList.update ''api_key'' (JString (redacted_text ''abc'')) sample_azure))
                 (AList.update ''openai''
                    (JObject (AList.update ''api_key'' (JString (redacted_text ''sk-test-1234''))
                                sample_openai))
                    sample_items))"
    by code_simp
  have r1: "redacted_text ''sk-test-1234'' = ''***1234''" and r2: "redacted_text ''abc'' = ''***''"
    by (simp_all add: redacted_text_def last4_def)
  from view_config_redacts_api_keys
    [where s = sample_store and t = "sample_config_dumps sample_config" and w = None
       and json_loads = sample_config_loads and d = sample_items and od = sample_openai
       and k = "''sk-test-1234''" and ad = sample_azure and k' = "''abc''"
       and shown = sample_config_shown and json_dumps = sample_config_dumps,
     OF sample_store_dir sample_config_loads_stored sample_sections(1) sample_sections(3)
       sample_sections(2) sample_sections(4) shown]
  show ?thesis by (simp add: r1 r2)
qed

section \<open>The Conversation Store\<close>

lemma message_list_map: "message_list (map PyMessage msgs) = Some msgs"
  by (induction msgs) simp_all

lemma message_list_Some:
  "message_list xs = Some msgs \<Longrightarrow> xs = map PyMessage msgs"
proof (induction xs arbitrary: msgs)
  case Nil
  then show ?case by simp
next
  case (Cons x xs)
  then show ?case
    by (cases x) (auto split: option.splits)
qed

lemma as_messages_iff:
  "as_messages v = Some msgs \<longleftrightarrow> v = PyList (map PyMessage msgs)"
proof
  assume "as_messages v = Some msgs"
  then show "v = PyList (map PyMessage msgs)"
    by (cases v) (simp_all add: message_list_Some)
next
  assume "v = PyList (map PyMessage msgs)"
  then show "as_messages v = Some msgs"
    by (simp add: message_list_map)
qed

lemma as_messages_None:
  assumes "\<forall>msgs. v \<noteq> PyList (map PyMessage msgs)"
  shows "as_messages v = None"
proof (cases "as_messages v")
  case None
  then show ?thesis .
next
  case (Some msgs)
  with assms show ?thesis by (simp add: as_messages_iff)
qed

lemma as_messages_non_list:
  assumes "\<forall>xs. v \<noteq> PyList xs"
  shows "as_messages v = None"
  using assms by (intro as_messages_None) auto

lemma as_messages_non_message:
  assumes "x \<in> set xs" and "\<forall>m. x \<noteq> PyMessage m"
  shows "as_messages (PyList xs) = None"
  using assms by (intro as_messages_None) auto









end
